theory Spec2Isabelle
  imports Main
begin

section \<open>The JDBC connector of the vectorized engine\<close>

text \<open>
  A shallow embedding of \<^verbatim>\<open>be/src/vec/exec/vjdbc_connector.cpp\<close>. Every member
  function of \<^verbatim>\<open>JdbcConnector\<close> is a state transformer over the connector's
  members. Everything the connector reaches through the JNI bridge or through another
  engine component (the foreign executor, the driver cache, the block import and the
  cast registry) is an external call: the call is appended to a log kept in the state
  and its answer is read from a \<open>world\<close>, a function of the log so far and the call.
  A theorem that quantifies over the world holds for every behaviour of the foreign side.
\<close>

subsection \<open>Column types and slot descriptors\<close>

text \<open>
  \<^verbatim>\<open>PrimitiveType\<close> is declared in \<^verbatim>\<open>runtime/define_primitive_type.h\<close>. The members
  below are the ones the connector names; \<open>TYPE_OTHER n\<close> stands for every other member
  of the enumeration (they all reach the \<^verbatim>\<open>default\<close> branch of the type check).
\<close>

datatype PrimitiveType =
    TYPE_BOOLEAN
  | TYPE_TINYINT | TYPE_SMALLINT | TYPE_INT
  | TYPE_BIGINT | TYPE_LARGEINT
  | TYPE_FLOAT | TYPE_DOUBLE
  | TYPE_CHAR | TYPE_VARCHAR | TYPE_STRING
  | TYPE_DATE | TYPE_DATEV2 | TYPE_TIMEV2 | TYPE_DATETIME | TYPE_DATETIMEV2
  | TYPE_DECIMALV2 | TYPE_DECIMAL32 | TYPE_DECIMAL64 | TYPE_DECIMAL128I | TYPE_DECIMAL256
  | TYPE_ARRAY
  | TYPE_JSONB | TYPE_HLL | TYPE_OBJECT
  | TYPE_OTHER nat

text \<open>
  \<^verbatim>\<open>TypeDescriptor\<close> (\<^verbatim>\<open>runtime/types.h\<close>): the field \<open>type\<close>, and the texts that
  \<^verbatim>\<open>debug_string()\<close> and \<^verbatim>\<open>JniConnector::get_jni_type\<close> give for the descriptor.
\<close>

record TypeDescriptor =
  type :: PrimitiveType
  debug_string :: string
  jni_type :: string

definition is_bitmap_type :: "TypeDescriptor \<Rightarrow> bool" where
  "is_bitmap_type t = (type t = TYPE_OBJECT)"

definition is_hll_type :: "TypeDescriptor \<Rightarrow> bool" where
  "is_hll_type t = (type t = TYPE_HLL)"

definition is_json_type :: "TypeDescriptor \<Rightarrow> bool" where
  "is_json_type t = (type t = TYPE_JSONB)"

record SlotDescriptor =
  col_name :: string
  slot_type :: TypeDescriptor
  is_nullable :: bool
  is_materialized :: bool

datatype Status = OK | InternalError string

text \<open>The text \<^verbatim>\<open>Status::to_string()\<close> prints.\<close>

fun to_string :: "Status \<Rightarrow> string" where
  "to_string OK = ''[OK]''"
| "to_string (InternalError m) = ''[INTERNAL_ERROR]'' @ m"

subsection \<open>Native data types, columns and blocks\<close>

datatype DataType =
    DataTypeString
  | DataTypeNullable DataType
  | DataTypeOf PrimitiveType

fun make_nullable :: "DataType \<Rightarrow> DataType" where
  "make_nullable (DataTypeNullable t) = DataTypeNullable t"
| "make_nullable t = DataTypeNullable t"

fun dt_is_nullable :: "DataType \<Rightarrow> bool" where
  "dt_is_nullable (DataTypeNullable t) = True"
| "dt_is_nullable t = False"

text \<open>
  Modelled from the spec: \<^verbatim>\<open>DataTypeFactory\<close> and
  \<^verbatim>\<open>SlotDescriptor::get_data_type_ptr\<close> are outside this file. The staging string type
  is the native type of the string family; every other declared type has a native type
  of its own. The native type of a slot is that of its declared type, nullable when the
  slot is.
\<close>

definition create_data_type :: "PrimitiveType \<Rightarrow> DataType" where
  "create_data_type t =
     (if t = TYPE_CHAR \<or> t = TYPE_VARCHAR \<or> t = TYPE_STRING then DataTypeString
      else DataTypeOf t)"

definition get_data_type_ptr :: "SlotDescriptor \<Rightarrow> DataType" where
  "get_data_type_ptr slot =
     (if is_nullable slot then make_nullable (create_data_type (type (slot_type slot)))
      else create_data_type (type (slot_type slot)))"

text \<open>
  A column is a vector of cells of one data type (the cells are kept as opaque texts), or
  a nullable column: a nested column and its null map.
\<close>

datatype Column =
    ColumnVector DataType "string list"
  | ColumnNullable Column "bool list"

fun size_of :: "Column \<Rightarrow> nat" where
  "size_of (ColumnVector t cells) = length cells"
| "size_of (ColumnNullable c null_map) = size_of c"

fun create_column :: "DataType \<Rightarrow> Column" where
  "create_column (DataTypeNullable t) = ColumnNullable (create_column t) []"
| "create_column t = ColumnVector t []"

definition make_nullable_column :: "Column \<Rightarrow> Column" where
  "make_nullable_column c =
     (case c of ColumnNullable n m \<Rightarrow> c
      | ColumnVector t cells \<Rightarrow> ColumnNullable c (replicate (length cells) False))"

text \<open>
  \<^verbatim>\<open>ColumnWithTypeAndName\<close>: \<open>column\<close> is a \<^verbatim>\<open>ColumnPtr\<close> (\<open>None\<close> is the null
  pointer); \<open>data_type\<close> is the member the source calls \<^verbatim>\<open>type\<close>.
\<close>

record ColumnWithTypeAndName =
  column :: "Column option"
  data_type :: DataType
  name :: string

type_synonym Block = "ColumnWithTypeAndName list"

text \<open>\<^verbatim>\<open>Block::rows()\<close>: the size of the first column that is present.\<close>

fun rows :: "Block \<Rightarrow> nat" where
  "rows [] = 0"
| "rows (elem # data) = (case column elem of Some c \<Rightarrow> size_of c | None \<Rightarrow> rows data)"

subsection \<open>Configuration\<close>

text \<open>
  \<^verbatim>\<open>TOdbcTableType\<close> is generated from the thrift definitions; the connector names one
  member only.
\<close>

datatype TOdbcTableType = NEBULA | OTHER_TABLE_TYPE nat

datatype TJdbcOperation = READ | WRITE

record JdbcConnectorParam =
  driver_path :: string
  driver_class :: string
  resource_name :: string
  driver_checksum :: string
  jdbc_url :: string
  user :: string
  passwd :: string
  query_string :: string
  table_name :: string
  use_transaction :: bool
  table_type :: TOdbcTableType
  min_pool_size :: int
  max_pool_size :: int
  max_idle_time :: int
  max_wait_time :: int
  keep_alive :: bool
  tuple_desc :: "SlotDescriptor list"

record TJdbcExecutorCtorParams =
  ctor_statement :: string
  ctor_jdbc_url :: string
  ctor_jdbc_user :: string
  ctor_jdbc_password :: string
  ctor_jdbc_driver_class :: string
  ctor_driver_path :: string
  ctor_batch_size :: int
  ctor_op :: TJdbcOperation
  ctor_table_type :: TOdbcTableType
  ctor_min_pool_size :: int
  ctor_max_pool_size :: int
  ctor_max_idle_time :: int
  ctor_max_wait_time :: int
  ctor_keep_alive :: bool

subsection \<open>The JNI bridge and the other collaborators\<close>

text \<open>
  The connector's JNI members. A reference member is unset until it is assigned, then
  null, a local reference, a global reference, or freed (deleted, or a local reference
  whose frame was popped). A call through a member that holds no live reference, or with
  a method identifier that was never resolved, is undefined behaviour.
\<close>

datatype jref = Unset | NullRef | LocalRef | GlobalRef | Freed

datatype jni_var =
    executor_clazz | executor_object_clazz | executor_string_clazz | executor_list_clazz
  | executor_obj

datatype method_id =
    executor_ctor_id | executor_stmt_write_id | executor_read_id | executor_close_id
  | executor_has_next_id | executor_get_block_address_id | executor_block_rows_id
  | executor_get_list_id | get_bytes_id | to_string_id
  | executor_begin_trans_id | executor_finish_trans_id | executor_abort_trans_id
  | executor_get_types_id

datatype jarg = JInt int | JMap "(string \<times> string) list" | JString string

text \<open>
  The external calls. \<open>CallMethod m args\<close> is any of the JNI \<^verbatim>\<open>Call...Method\<close>
  functions on the method \<open>m\<close>; the others carry the name of the function called.
\<close>

datatype ext_call =
    GetJNIEnv
  | get_jni_scanner_class string
  | GetGlobalClassRef string
  | GetMethodID jni_var string string
  | get_jarpath string string string
  | jni_frame_push
  | jni_frame_pop
  | SerializeThriftMsg TJdbcExecutorCtorParams
  | NewObject method_id
  | GetByteArrayElements
  | ReleaseByteArrayElements
  | NewStringUTF string
  | GetArrayLength
  | LocalToGlobalRef jni_var
  | CallMethod method_id "jarg list"
  | DeleteGlobalRef jni_var
  | DeleteLocalRef
  | convert_to_java_map "(string \<times> string) list"
  | fill_block "nat list" int
  | to_java_table Block
  | parse_table_schema Block
  | CAST_execute "Column option" DataType DataType string int

text \<open>
  What an external call answers. Each call reads the fields of its own result type:
  \<open>r_status\<close> for a helper that returns a \<^verbatim>\<open>Status\<close>, \<open>r_int\<close> / \<open>r_bool\<close> /
  \<open>r_string\<close> for a value, \<open>r_null\<close> when a returned reference is null, \<open>r_exc\<close> the
  message of the Java exception the call raised (if any), \<open>r_schema\<close> for the pair of
  texts a schema summary consists of, and \<open>r_columns\<close>, \<open>r_column\<close>, \<open>r_null_map\<close> for
  column data.
\<close>

record response =
  r_status :: Status
  r_int :: int
  r_bool :: bool
  r_string :: string
  r_null :: bool
  r_exc :: "string option"
  r_schema :: "string \<times> string"
  r_columns :: "nat \<Rightarrow> Column"
  r_column :: Column
  r_null_map :: "bool list"

type_synonym world = "ext_call list \<Rightarrow> ext_call \<Rightarrow> response"

subsection \<open>The connector's state\<close>

text \<open>
  The members of \<^verbatim>\<open>JdbcConnector\<close> and of its base \<^verbatim>\<open>TableConnector\<close>, the JNI
  environment's pending exception, and the log of external calls. \<open>use_tranaction\<close> is
  the base class's spelling.
\<close>

record JdbcConnector =
  conn_param :: JdbcConnectorParam
  slots :: "SlotDescriptor list"
  use_tranaction :: bool
  sql_str :: string
  closed :: bool
  is_open :: bool
  is_in_transaction :: bool
  sent_rows_counter :: int
  refs :: "jni_var \<Rightarrow> jref"
  func_ids :: "method_id \<Rightarrow> bool"
  map_column_idx_to_cast_idx_json :: "nat \<rightharpoonup> nat"
  map_column_idx_to_cast_idx_hll :: "nat \<rightharpoonup> nat"
  map_column_idx_to_cast_idx_bitmap :: "nat \<rightharpoonup> nat"
  input_json_string_types :: "DataType list"
  input_hll_string_types :: "DataType list"
  input_bitmap_string_types :: "DataType list"
  str_json_cols :: "Column list"
  str_hll_cols :: "Column list"
  str_bitmap_cols :: "Column list"
  pending :: "string option"
  calls :: "ext_call list"

text \<open>
  Modelled from the spec: the initial values of the members of the base class
  \<^verbatim>\<open>TableConnector\<close>, whose constructor is outside this file. The specification creates
  the connection state as Closed: not open and not in a transaction. The rest is the
  constructor of the source: \<^verbatim>\<open>TableConnector(param.tuple_desc, param.use_transaction,
  param.table_name, param.query_string)\<close>, \<^verbatim>\<open>_conn_param(param)\<close>,
  \<^verbatim>\<open>_closed(false)\<close>; no JNI member is assigned and the cast plan is empty.
\<close>

definition JdbcConnector_ctor :: "JdbcConnectorParam \<Rightarrow> JdbcConnector" where
  "JdbcConnector_ctor param =
     \<lparr> conn_param = param,
       slots = tuple_desc param,
       use_tranaction = use_transaction param,
       sql_str = query_string param,
       closed = False,
       is_open = False,
       is_in_transaction = False,
       sent_rows_counter = 0,
       refs = (\<lambda>v. Unset),
       func_ids = (\<lambda>m. False),
       map_column_idx_to_cast_idx_json = Map.empty,
       map_column_idx_to_cast_idx_hll = Map.empty,
       map_column_idx_to_cast_idx_bitmap = Map.empty,
       input_json_string_types = [],
       input_hll_string_types = [],
       input_bitmap_string_types = [],
       str_json_cols = [],
       str_hll_cols = [],
       str_bitmap_cols = [],
       pending = None,
       calls = [] \<rparr>"

subsection \<open>Sequencing\<close>

text \<open>
  A member function maps the state to its result and the new state, or to \<open>None\<close> when
  the C++ has undefined behaviour (a JNI call through a dead reference, an index out of
  range).
\<close>

type_synonym 'a exec = "JdbcConnector \<Rightarrow> ('a \<times> JdbcConnector) option"

definition return :: "'a \<Rightarrow> 'a exec" where
  "return a s = Some (a, s)"

definition seq :: "'a exec \<Rightarrow> ('a \<Rightarrow> 'b exec) \<Rightarrow> 'b exec" where
  "seq m k s = (case m s of None \<Rightarrow> None | Some (a, s') \<Rightarrow> k a s')"

definition gets :: "(JdbcConnector \<Rightarrow> 'a) \<Rightarrow> 'a exec" where
  "gets f s = Some (f s, s)"

definition modify :: "(JdbcConnector \<Rightarrow> JdbcConnector) \<Rightarrow> unit exec" where
  "modify f s = Some ((), f s)"

definition require :: "(JdbcConnector \<Rightarrow> bool) \<Rightarrow> unit exec" where
  "require P s = (if P s then Some ((), s) else None)"

definition defined :: "'a option \<Rightarrow> 'a exec" where
  "defined x s = (case x of None \<Rightarrow> None | Some a \<Rightarrow> Some (a, s))"

text \<open>The macro \<^verbatim>\<open>RETURN_IF_ERROR(stmt)\<close>, followed by the rest of the function.\<close>

definition RETURN_IF_ERROR :: "Status exec \<Rightarrow> Status exec \<Rightarrow> Status exec" where
  "RETURN_IF_ERROR m k = seq m (\<lambda>st. if st = OK then k else return st)"

text \<open>
  \<^verbatim>\<open>RETURN_IF_ERROR\<close> in a function with output parameters: \<open>out\<close> is what the
  output parameters hold when the function returns early.
\<close>

definition RETURN_IF_ERROR_OUT :: "Status exec \<Rightarrow> 'a \<Rightarrow> (Status \<times> 'a) exec \<Rightarrow> (Status \<times> 'a) exec" where
  "RETURN_IF_ERROR_OUT m out k = seq m (\<lambda>st. if st = OK then k else return (st, out))"

subsection \<open>External calls\<close>

definition ext :: "world \<Rightarrow> ext_call \<Rightarrow> response exec" where
  "ext w c s = Some (w (calls s) c, s\<lparr>calls := calls s @ [c]\<rparr>)"

text \<open>A call into Java: the exception it raises stays pending in the environment.\<close>

definition jni :: "world \<Rightarrow> ext_call \<Rightarrow> response exec" where
  "jni w c =
     seq (ext w c) (\<lambda>r.
     seq (modify (\<lambda>s. s\<lparr>pending := (case r_exc r of None \<Rightarrow> pending s | Some e \<Rightarrow> Some e)\<rparr>)) (\<lambda>_.
     return r))"

text \<open>A helper that returns a \<^verbatim>\<open>Status\<close>.\<close>

definition ext_status :: "world \<Rightarrow> ext_call \<Rightarrow> Status exec" where
  "ext_status w c = seq (ext w c) (\<lambda>r. return (r_status r))"

text \<open>
  \<^verbatim>\<open>JniUtil::GetJniExceptionMsg\<close>: success when no exception is pending; otherwise the
  exception is cleared and returned as an error that carries its message.
\<close>

definition GetJniExceptionMsg :: "Status exec" where
  "GetJniExceptionMsg =
     seq (gets pending) (\<lambda>exc.
     case exc of
       None \<Rightarrow> return OK
     | Some m \<Rightarrow> seq (modify (\<lambda>s. s\<lparr>pending := None\<rparr>)) (\<lambda>_. return (InternalError m)))"

text \<open>
  The macro \<^verbatim>\<open>RETURN_ERROR_IF_EXC(env)\<close>: when an exception is pending, return what
  \<^verbatim>\<open>GetJniExceptionMsg\<close> makes of it.
\<close>

definition RETURN_ERROR_IF_EXC :: "Status exec \<Rightarrow> Status exec" where
  "RETURN_ERROR_IF_EXC k =
     seq (gets pending) (\<lambda>exc. if exc \<noteq> None then GetJniExceptionMsg else k)"

definition live :: "jref \<Rightarrow> bool" where
  "live r = (r = LocalRef \<or> r = GlobalRef)"

text \<open>
  \<^verbatim>\<open>env->CallNonvirtual...Method(_executor_obj, _executor_clazz, id, args)\<close> and
  \<^verbatim>\<open>env->Call...Method(_executor_obj, id, args)\<close>. The call needs a live object and a
  registered method id; the method id alone selects the code that runs, so nothing is asked
  of the class handle (\<^verbatim>\<open>close\<close> passes it after deleting its global reference).
\<close>

definition CallNonvirtualMethod :: "world \<Rightarrow> method_id \<Rightarrow> jarg list \<Rightarrow> response exec" where
  "CallNonvirtualMethod w m args =
     seq (require (\<lambda>s. live (refs s executor_obj) \<and> func_ids s m)) (\<lambda>_.
     jni w (CallMethod m args))"

definition CallExecutorMethod :: "world \<Rightarrow> method_id \<Rightarrow> jarg list \<Rightarrow> response exec" where
  "CallExecutorMethod w m args =
     seq (require (\<lambda>s. live (refs s executor_obj) \<and> func_ids s m)) (\<lambda>_.
     jni w (CallMethod m args))"

text \<open>\<^verbatim>\<open>env->DeleteGlobalRef(ref)\<close>: a null reference is ignored.\<close>

definition DeleteGlobalRef_var :: "world \<Rightarrow> jni_var \<Rightarrow> unit exec" where
  "DeleteGlobalRef_var w v =
     seq (require (\<lambda>s. refs s v = GlobalRef \<or> refs s v = NullRef)) (\<lambda>_.
     seq (ext w (DeleteGlobalRef v)) (\<lambda>_.
     modify (\<lambda>s. s\<lparr>refs := (refs s)(v := (if refs s v = NullRef then NullRef else Freed))\<rparr>)))"

subsection \<open>The type check\<close>

definition error_msg :: "SlotDescriptor \<Rightarrow> string \<Rightarrow> string" where
  "error_msg slot_desc type_str =
     ''Fail to convert jdbc type of '' @ type_str @ '' to doris type '' @
     debug_string (slot_type slot_desc) @ '' on column: '' @ col_name slot_desc @
     ''. You need to check this column type between external table and doris table.''"

text \<open>
  \<^verbatim>\<open>std::map::operator[]\<close> as a read: a missing key is inserted with the value 0.
  \<^verbatim>\<open>std::vector::operator[]\<close>: an index out of range is undefined behaviour.
\<close>

definition map_subscript :: "(nat \<rightharpoonup> nat) \<Rightarrow> nat \<Rightarrow> nat \<times> (nat \<rightharpoonup> nat)" where
  "map_subscript m k = (case m k of Some v \<Rightarrow> (v, m) | None \<Rightarrow> (0, m(k \<mapsto> 0)))"

definition vector_at :: "'a list \<Rightarrow> nat \<Rightarrow> 'a option" where
  "vector_at xs i = (if i < length xs then Some (xs ! i) else None)"

text \<open>
  The bookkeeping \<^verbatim>\<open>_check_type\<close> does for an accepted JSONB, HLL or bitmap column,
  on the members of that kind (\<open>get_map\<close>, \<open>set_map\<close>, \<open>get_types\<close>, \<open>set_types\<close>,
  \<open>add_col\<close>): the column index is mapped to the next staging index, a string type,
  nullable when the slot is, is pushed, and a column of the type at the mapped index is
  pushed.
\<close>

definition record_cast_plan ::
  "(JdbcConnector \<Rightarrow> nat \<rightharpoonup> nat) \<Rightarrow> ((nat \<rightharpoonup> nat) \<Rightarrow> JdbcConnector \<Rightarrow> JdbcConnector) \<Rightarrow>
   (JdbcConnector \<Rightarrow> DataType list) \<Rightarrow> (DataType list \<Rightarrow> JdbcConnector \<Rightarrow> JdbcConnector) \<Rightarrow>
   (Column \<Rightarrow> JdbcConnector \<Rightarrow> JdbcConnector) \<Rightarrow> SlotDescriptor \<Rightarrow> nat \<Rightarrow> Status exec" where
  "record_cast_plan get_map set_map get_types set_types add_col slot_desc column_index =
     seq (gets get_types) (\<lambda>types.
     seq (gets get_map) (\<lambda>m.
     seq (modify (set_map (m(column_index \<mapsto> length types)))) (\<lambda>_.
     seq (modify (set_types (types @
            [if is_nullable slot_desc then make_nullable DataTypeString
             else DataTypeString]))) (\<lambda>_.
     seq (gets get_map) (\<lambda>m.
     case map_subscript m column_index of (idx, m) \<Rightarrow>
     seq (modify (set_map m)) (\<lambda>_.
     seq (gets get_types) (\<lambda>types.
     seq (defined (vector_at types idx)) (\<lambda>ty.
     seq (modify (add_col (create_column ty))) (\<lambda>_.
     return OK)))))))))"

text \<open>
  \<^verbatim>\<open>JdbcConnector::_check_type\<close>. The \<^verbatim>\<open>switch\<close> over the declared type is written
  as a chain of tests, one per group of \<^verbatim>\<open>case\<close> labels, in the order of the source.
\<close>

definition check_type :: "SlotDescriptor \<Rightarrow> string \<Rightarrow> nat \<Rightarrow> Status exec" where
  "check_type slot_desc type_str column_index =
     (let t = type (slot_type slot_desc);
          error = return (InternalError (error_msg slot_desc type_str))
      in
      if t = TYPE_BOOLEAN then
        if type_str \<noteq> ''java.lang.Boolean'' \<and> type_str \<noteq> ''java.lang.Byte'' \<and>
           type_str \<noteq> ''java.lang.Integer''
        then error else return OK
      else if t = TYPE_TINYINT \<or> t = TYPE_SMALLINT \<or> t = TYPE_INT then
        if type_str \<noteq> ''java.lang.Short'' \<and> type_str \<noteq> ''java.lang.Integer'' \<and>
           type_str \<noteq> ''java.math.BigDecimal'' \<and> type_str \<noteq> ''java.lang.Byte'' \<and>
           type_str \<noteq> ''com.clickhouse.data.value.UnsignedByte'' \<and>
           type_str \<noteq> ''com.clickhouse.data.value.UnsignedShort'' \<and>
           type_str \<noteq> ''java.lang.Long''
        then error else return OK
      else if t = TYPE_BIGINT \<or> t = TYPE_LARGEINT then
        if type_str \<noteq> ''java.lang.Long'' \<and> type_str \<noteq> ''java.math.BigDecimal'' \<and>
           type_str \<noteq> ''java.math.BigInteger'' \<and> type_str \<noteq> ''java.lang.String'' \<and>
           type_str \<noteq> ''com.clickhouse.data.value.UnsignedInteger'' \<and>
           type_str \<noteq> ''com.clickhouse.data.value.UnsignedLong''
        then error else return OK
      else if t = TYPE_FLOAT then
        if type_str \<noteq> ''java.lang.Float'' \<and> type_str \<noteq> ''java.math.BigDecimal''
        then error else return OK
      else if t = TYPE_DOUBLE then
        if type_str \<noteq> ''java.lang.Double'' \<and> type_str \<noteq> ''java.math.BigDecimal''
        then error else return OK
      else if t = TYPE_CHAR \<or> t = TYPE_VARCHAR \<or> t = TYPE_STRING then
        return OK
      else if t = TYPE_DATE \<or> t = TYPE_DATEV2 \<or> t = TYPE_TIMEV2 \<or> t = TYPE_DATETIME \<or>
              t = TYPE_DATETIMEV2 then
        if type_str \<noteq> ''java.sql.Timestamp'' \<and> type_str \<noteq> ''java.time.LocalDateTime'' \<and>
           type_str \<noteq> ''java.sql.Date'' \<and> type_str \<noteq> ''java.time.LocalDate'' \<and>
           type_str \<noteq> ''oracle.sql.TIMESTAMP'' \<and> type_str \<noteq> ''java.time.OffsetDateTime''
        then error else return OK
      else if t = TYPE_DECIMALV2 \<or> t = TYPE_DECIMAL32 \<or> t = TYPE_DECIMAL64 \<or>
              t = TYPE_DECIMAL128I \<or> t = TYPE_DECIMAL256 then
        if type_str \<noteq> ''java.math.BigDecimal''
        then error else return OK
      else if t = TYPE_ARRAY then
        if type_str \<noteq> ''java.sql.Array'' \<and> type_str \<noteq> ''java.lang.String'' \<and>
           type_str \<noteq> ''java.lang.Object''
        then error else return OK
      else if t = TYPE_JSONB then
        if type_str \<noteq> ''java.lang.String'' \<and> type_str \<noteq> ''org.postgresql.util.PGobject''
        then error
        else record_cast_plan
               map_column_idx_to_cast_idx_json (\<lambda>m s. s\<lparr>map_column_idx_to_cast_idx_json := m\<rparr>)
               input_json_string_types (\<lambda>ts s. s\<lparr>input_json_string_types := ts\<rparr>)
               (\<lambda>c s. s\<lparr>str_json_cols := str_json_cols s @ [c]\<rparr>)
               slot_desc column_index
      else if t = TYPE_HLL then
        if type_str \<noteq> ''java.lang.String''
        then error
        else record_cast_plan
               map_column_idx_to_cast_idx_hll (\<lambda>m s. s\<lparr>map_column_idx_to_cast_idx_hll := m\<rparr>)
               input_hll_string_types (\<lambda>ts s. s\<lparr>input_hll_string_types := ts\<rparr>)
               (\<lambda>c s. s\<lparr>str_hll_cols := str_hll_cols s @ [c]\<rparr>)
               slot_desc column_index
      else if t = TYPE_OBJECT then
        if type_str \<noteq> ''java.lang.String''
        then error
        else record_cast_plan
               map_column_idx_to_cast_idx_bitmap
               (\<lambda>m s. s\<lparr>map_column_idx_to_cast_idx_bitmap := m\<rparr>)
               input_bitmap_string_types (\<lambda>ts s. s\<lparr>input_bitmap_string_types := ts\<rparr>)
               (\<lambda>c s. s\<lparr>str_bitmap_cols := str_bitmap_cols s @ [c]\<rparr>)
               slot_desc column_index
      else error)"

subsection \<open>Opening and closing\<close>

definition JDBC_EXECUTOR_CLASS :: string where
  "JDBC_EXECUTOR_CLASS = ''org/apache/doris/jdbc/JdbcExecutor''"

definition JDBC_EXECUTOR_CTOR_SIGNATURE :: string where
  "JDBC_EXECUTOR_CTOR_SIGNATURE = ''([B)V''"

definition JDBC_EXECUTOR_STMT_WRITE_SIGNATURE :: string where
  "JDBC_EXECUTOR_STMT_WRITE_SIGNATURE = ''(Ljava/util/Map;)I''"

definition JDBC_EXECUTOR_HAS_NEXT_SIGNATURE :: string where
  "JDBC_EXECUTOR_HAS_NEXT_SIGNATURE = ''()Z''"

definition JDBC_EXECUTOR_GET_TYPES_SIGNATURE :: string where
  "JDBC_EXECUTOR_GET_TYPES_SIGNATURE = ''()Ljava/util/List;''"

definition JDBC_EXECUTOR_CLOSE_SIGNATURE :: string where
  "JDBC_EXECUTOR_CLOSE_SIGNATURE = ''()V''"

definition JDBC_EXECUTOR_TRANSACTION_SIGNATURE :: string where
  "JDBC_EXECUTOR_TRANSACTION_SIGNATURE = ''()V''"

text \<open>
  A helper that resolves a class into a reference member (\<^verbatim>\<open>get_jni_scanner_class\<close>,
  \<^verbatim>\<open>GetGlobalClassRef\<close>): on success the member holds a global reference.
\<close>

definition get_class_ref :: "world \<Rightarrow> ext_call \<Rightarrow> jni_var \<Rightarrow> Status exec" where
  "get_class_ref w c v =
     seq (ext_status w c) (\<lambda>st.
     if st = OK then seq (modify (\<lambda>s. s\<lparr>refs := (refs s)(v := GlobalRef)\<rparr>)) (\<lambda>_. return OK)
     else return st)"

text \<open>
  The lambda \<^verbatim>\<open>register_id\<close> of \<^verbatim>\<open>_register_func_id\<close>: \<^verbatim>\<open>GetMethodID\<close> gives a
  valid identifier exactly when it raises nothing.
\<close>

definition register_id :: "world \<Rightarrow> jni_var \<Rightarrow> string \<Rightarrow> string \<Rightarrow> method_id \<Rightarrow> Status exec" where
  "register_id w clazz func_name func_sign func_id =
     seq (require (\<lambda>s. live (refs s clazz))) (\<lambda>_.
     seq (jni w (GetMethodID clazz func_name func_sign)) (\<lambda>r.
     seq (modify (\<lambda>s. s\<lparr>func_ids := (func_ids s)(func_id := (r_exc r = None))\<rparr>)) (\<lambda>_.
     seq GetJniExceptionMsg (\<lambda>st.
     if st \<noteq> OK then
       return (InternalError
         (''Jdbc connector _register_func_id meet error and error is '' @ to_string st))
     else return st))))"

definition register_func_id :: "world \<Rightarrow> Status exec" where
  "register_func_id w =
     RETURN_IF_ERROR (register_id w executor_clazz ''<init>'' JDBC_EXECUTOR_CTOR_SIGNATURE
                        executor_ctor_id) (
     RETURN_IF_ERROR (register_id w executor_clazz ''write'' JDBC_EXECUTOR_STMT_WRITE_SIGNATURE
                        executor_stmt_write_id) (
     RETURN_IF_ERROR (register_id w executor_clazz ''read'' ''()I'' executor_read_id) (
     RETURN_IF_ERROR (register_id w executor_clazz ''close'' JDBC_EXECUTOR_CLOSE_SIGNATURE
                        executor_close_id) (
     RETURN_IF_ERROR (register_id w executor_clazz ''hasNext'' JDBC_EXECUTOR_HAS_NEXT_SIGNATURE
                        executor_has_next_id) (
     RETURN_IF_ERROR (register_id w executor_clazz ''getBlockAddress'' ''(ILjava/util/Map;)J''
                        executor_get_block_address_id) (
     RETURN_IF_ERROR (register_id w executor_clazz ''getCurBlockRows'' ''()I''
                        executor_block_rows_id) (
     RETURN_IF_ERROR (register_id w executor_list_clazz ''get'' ''(I)Ljava/lang/Object;''
                        executor_get_list_id) (
     RETURN_IF_ERROR (register_id w executor_string_clazz ''getBytes'' ''(Ljava/lang/String;)[B''
                        get_bytes_id) (
     RETURN_IF_ERROR (register_id w executor_object_clazz ''toString'' ''()Ljava/lang/String;''
                        to_string_id) (
     RETURN_IF_ERROR (register_id w executor_clazz ''openTrans''
                        JDBC_EXECUTOR_TRANSACTION_SIGNATURE executor_begin_trans_id) (
     RETURN_IF_ERROR (register_id w executor_clazz ''commitTrans''
                        JDBC_EXECUTOR_TRANSACTION_SIGNATURE executor_finish_trans_id) (
     RETURN_IF_ERROR (register_id w executor_clazz ''rollbackTrans''
                        JDBC_EXECUTOR_TRANSACTION_SIGNATURE executor_abort_trans_id) (
     RETURN_IF_ERROR (register_id w executor_clazz ''getResultColumnTypeNames''
                        JDBC_EXECUTOR_GET_TYPES_SIGNATURE executor_get_types_id) (
     return OK))))))))))))))"

definition begin_trans :: "world \<Rightarrow> Status exec" where
  "begin_trans w =
     seq (gets use_tranaction) (\<lambda>use.
     if use then
       RETURN_IF_ERROR (ext_status w GetJNIEnv) (
       seq (CallNonvirtualMethod w executor_begin_trans_id []) (\<lambda>_.
       RETURN_IF_ERROR GetJniExceptionMsg (
       seq (modify (\<lambda>s. s\<lparr>is_in_transaction := True\<rparr>)) (\<lambda>_.
       return OK))))
     else return OK)"

definition abort_trans :: "world \<Rightarrow> Status exec" where
  "abort_trans w =
     seq (gets is_in_transaction) (\<lambda>in_transaction.
     if \<not> in_transaction then
       return (InternalError ''Abort transaction before begin trans.'')
     else
       RETURN_IF_ERROR (ext_status w GetJNIEnv) (
       seq (CallNonvirtualMethod w executor_abort_trans_id []) (\<lambda>_.
       GetJniExceptionMsg)))"

definition finish_trans :: "world \<Rightarrow> Status exec" where
  "finish_trans w =
     seq (gets (\<lambda>s. use_tranaction s \<and> is_in_transaction s)) (\<lambda>committing.
     if committing then
       RETURN_IF_ERROR (ext_status w GetJNIEnv) (
       seq (CallNonvirtualMethod w executor_finish_trans_id []) (\<lambda>_.
       RETURN_IF_ERROR GetJniExceptionMsg (
       seq (modify (\<lambda>s. s\<lparr>is_in_transaction := False\<rparr>)) (\<lambda>_.
       return OK))))
     else return OK)"

definition close :: "world \<Rightarrow> Status exec" where
  "close w =
     seq (modify (\<lambda>s. s\<lparr>closed := True\<rparr>)) (\<lambda>_.
     seq (gets is_open) (\<lambda>opened.
     if \<not> opened then return OK
     else
       RETURN_IF_ERROR
         (seq (gets is_in_transaction) (\<lambda>in_transaction.
          if in_transaction then abort_trans w else return OK)) (
       RETURN_IF_ERROR (ext_status w GetJNIEnv) (
       seq (DeleteGlobalRef_var w executor_clazz) (\<lambda>_.
       seq (DeleteGlobalRef_var w executor_object_clazz) (\<lambda>_.
       seq (DeleteGlobalRef_var w executor_string_clazz) (\<lambda>_.
       seq (DeleteGlobalRef_var w executor_list_clazz) (\<lambda>_.
       seq (CallNonvirtualMethod w executor_close_id []) (\<lambda>_.
       RETURN_IF_ERROR GetJniExceptionMsg (
       seq (DeleteGlobalRef_var w executor_obj) (\<lambda>_.
       return OK)))))))))))"

text \<open>The destructor.\<close>

definition destructor :: "world \<Rightarrow> unit exec" where
  "destructor w =
     seq (gets closed) (\<lambda>is_closed.
     if \<not> is_closed then seq (close w) (\<lambda>_. return ()) else return ())"

text \<open>
  \<^verbatim>\<open>JniUtil::LocalToGlobalRef(env, _executor_obj, &_executor_obj)\<close>: the member is
  assigned the new global reference, null when none could be made.
\<close>

definition LocalToGlobalRef_var :: "world \<Rightarrow> jni_var \<Rightarrow> Status exec" where
  "LocalToGlobalRef_var w v =
     seq (ext_status w (LocalToGlobalRef v)) (\<lambda>st.
     seq (modify (\<lambda>s. s\<lparr>refs := (refs s)(v :=
            (if st = OK \<and> live (refs s v) then GlobalRef else NullRef))\<rparr>)) (\<lambda>_.
     return st))"

text \<open>
  The scope of the \<^verbatim>\<open>JniLocalFrame\<close> once it is pushed: whatever way the body returns,
  the frame is popped, and a local reference made in it is dead from then on.
\<close>

definition with_pushed_frame :: "world \<Rightarrow> Status exec \<Rightarrow> Status exec" where
  "with_pushed_frame w body =
     seq body (\<lambda>st.
     seq (ext w jni_frame_pop) (\<lambda>_.
     seq (modify (\<lambda>s. s\<lparr>refs := (refs s)(executor_obj :=
            (if refs s executor_obj = LocalRef then Freed else refs s executor_obj))\<rparr>)) (\<lambda>_.
     return st)))"

text \<open>
  \<^verbatim>\<open>JdbcConnector::open(state, read)\<close>; \<open>batch_size\<close> is \<^verbatim>\<open>state->batch_size()\<close>.
  The key of the driver cache is the hash of the resource name, or of the driver path
  when there is no resource name; the call records the text that is hashed.
\<close>

definition open_connector :: "world \<Rightarrow> int \<Rightarrow> bool \<Rightarrow> Status exec" where
  "open_connector w batch_size read =
     seq (gets is_open) (\<lambda>opened.
     if opened then return OK
     else
       RETURN_IF_ERROR (ext_status w GetJNIEnv) (
       RETURN_IF_ERROR (get_class_ref w (get_jni_scanner_class JDBC_EXECUTOR_CLASS)
                          executor_clazz) (
       RETURN_IF_ERROR (get_class_ref w (GetGlobalClassRef ''java/util/List'')
                          executor_list_clazz) (
       RETURN_IF_ERROR (get_class_ref w (GetGlobalClassRef ''java/lang/Object'')
                          executor_object_clazz) (
       RETURN_IF_ERROR (get_class_ref w (GetGlobalClassRef ''java/lang/String'')
                          executor_string_clazz) (
       RETURN_IF_ERROR (register_func_id w) (
       seq (gets conn_param) (\<lambda>param.
       seq (gets sql_str) (\<lambda>sql.
       seq (ext w (get_jarpath
              (if resource_name param = [] then driver_path param else resource_name param)
              (driver_path param) (driver_checksum param))) (\<lambda>jar.
       if r_status jar \<noteq> OK then return (r_status jar)
       else
       let local_location = r_string jar;
           ctor_params =
             \<lparr> ctor_statement = sql,
               ctor_jdbc_url = jdbc_url param,
               ctor_jdbc_user = user param,
               ctor_jdbc_password = passwd param,
               ctor_jdbc_driver_class = driver_class param,
               ctor_driver_path = local_location,
               ctor_batch_size = (if read then batch_size else 0),
               ctor_op = (if read then READ else WRITE),
               ctor_table_type = table_type param,
               ctor_min_pool_size = min_pool_size param,
               ctor_max_pool_size = max_pool_size param,
               ctor_max_idle_time = max_idle_time param,
               ctor_max_wait_time = max_wait_time param,
               ctor_keep_alive = keep_alive param \<rparr>
       in
       RETURN_IF_ERROR (ext_status w jni_frame_push) (
       with_pushed_frame w (
         RETURN_IF_ERROR (ext_status w (SerializeThriftMsg ctor_params)) (
         seq (require (\<lambda>s. live (refs s executor_clazz) \<and> func_ids s executor_ctor_id)) (\<lambda>_.
         seq (jni w (NewObject executor_ctor_id)) (\<lambda>obj.
         seq (modify (\<lambda>s. s\<lparr>refs := (refs s)(executor_obj :=
                (if r_exc obj = None then LocalRef else NullRef))\<rparr>)) (\<lambda>_.
         seq (ext w GetByteArrayElements) (\<lambda>_.
         seq (ext w ReleaseByteArrayElements) (\<lambda>_.
         seq (ext w DeleteLocalRef) (\<lambda>_.
         RETURN_ERROR_IF_EXC (
         RETURN_IF_ERROR (LocalToGlobalRef_var w executor_obj) (
         seq (modify (\<lambda>s. s\<lparr>is_open := True\<rparr>)) (\<lambda>_.
         RETURN_IF_ERROR (begin_trans w) (
         return OK)))))))))))))))))))))))"

subsection \<open>Reading: query and type validation\<close>

text \<open>A reference that a Java call returned is null when the call says so or raised.\<close>

definition returned_null :: "response \<Rightarrow> bool" where
  "returned_null r = (r_null r \<or> r_exc r \<noteq> None)"

text \<open>
  \<^verbatim>\<open>_jobject_to_string(env, jobj)\<close>; \<open>jobj_null\<close> tells whether \<^verbatim>\<open>jobj\<close> is null.
  The text is the byte array that \<^verbatim>\<open>getBytes\<close> returns.
\<close>

definition jobject_to_string :: "world \<Rightarrow> bool \<Rightarrow> string exec" where
  "jobject_to_string w jobj_null =
     seq (require (\<lambda>s. \<not> jobj_null \<and> func_ids s to_string_id)) (\<lambda>_.
     seq (jni w (CallMethod to_string_id [])) (\<lambda>jstr.
     seq (ext w (NewStringUTF ''UTF-8'')) (\<lambda>_.
     seq (require (\<lambda>s. \<not> returned_null jstr \<and> func_ids s get_bytes_id)) (\<lambda>_.
     seq (jni w (CallMethod get_bytes_id [JString ''UTF-8''])) (\<lambda>stringJbytes.
     seq (require (\<lambda>s. \<not> returned_null stringJbytes)) (\<lambda>_.
     seq (ext w GetArrayLength) (\<lambda>_.
     seq (ext w GetByteArrayElements) (\<lambda>_.
     seq (ext w ReleaseByteArrayElements) (\<lambda>_.
     seq (ext w DeleteLocalRef) (\<lambda>_.
     seq (ext w DeleteLocalRef) (\<lambda>_.
     seq (ext w DeleteLocalRef) (\<lambda>_.
     return (r_string stringJbytes)))))))))))))"

text \<open>
  The loop of \<^verbatim>\<open>_check_column_type\<close> over the slots from \<open>column_index\<close> on;
  \<open>type_lists_null\<close> tells whether the list of type names is a null reference.
\<close>

fun check_column_type_loop ::
  "world \<Rightarrow> bool \<Rightarrow> SlotDescriptor list \<Rightarrow> nat \<Rightarrow> nat \<Rightarrow> Status exec" where
  "check_column_type_loop w type_lists_null [] column_index materialized_column_index =
     return OK"
| "check_column_type_loop w type_lists_null (slot_desc # rest) column_index
       materialized_column_index =
     (if \<not> is_materialized slot_desc then
        check_column_type_loop w type_lists_null rest (Suc column_index)
          materialized_column_index
      else
        seq (require (\<lambda>s. \<not> type_lists_null \<and> func_ids s executor_get_list_id)) (\<lambda>_.
        seq (jni w (CallMethod executor_get_list_id [JInt (int materialized_column_index)]))
          (\<lambda>column_type.
        seq (jobject_to_string w (returned_null column_type)) (\<lambda>type_str.
        RETURN_IF_ERROR (check_type slot_desc type_str column_index) (
        seq (ext w DeleteLocalRef) (\<lambda>_.
        check_column_type_loop w type_lists_null rest (Suc column_index)
          (Suc materialized_column_index)))))))"

definition check_column_type :: "world \<Rightarrow> Status exec" where
  "check_column_type w =
     RETURN_IF_ERROR (ext_status w GetJNIEnv) (
     seq (CallNonvirtualMethod w executor_get_types_id []) (\<lambda>type_lists.
     seq (gets slots) (\<lambda>tuple_slots.
     RETURN_IF_ERROR (check_column_type_loop w (returned_null type_lists) tuple_slots 0 0) (
     seq (ext w DeleteLocalRef) (\<lambda>_.
     GetJniExceptionMsg)))))"

text \<open>The counting loop at the head of \<^verbatim>\<open>query\<close>.\<close>

fun materialize_count :: "SlotDescriptor list \<Rightarrow> int \<Rightarrow> int" where
  "materialize_count [] materialize_num = materialize_num"
| "materialize_count (slot # rest) materialize_num =
     materialize_count rest (if is_materialized slot then materialize_num + 1 else materialize_num)"

definition query :: "world \<Rightarrow> Status exec" where
  "query w =
     seq (gets is_open) (\<lambda>opened.
     if \<not> opened then return (InternalError ''Query before open of JdbcConnector.'')
     else
       seq (gets slots) (\<lambda>tuple_slots.
       let materialize_num = materialize_count tuple_slots 0 in
       RETURN_IF_ERROR (ext_status w GetJNIEnv) (
       seq (CallNonvirtualMethod w executor_read_id []) (\<lambda>colunm_count.
       seq GetJniExceptionMsg (\<lambda>status.
       seq (gets conn_param) (\<lambda>param.
       if status \<noteq> OK then
         return (InternalError (''GetJniExceptionMsg meet error, query='' @
                   query_string param @ '', msg='' @ to_string status))
       else if r_int colunm_count \<noteq> materialize_num then
         return (InternalError ''input and output column num not equal of jdbc query.'')
       else if table_type param \<noteq> NEBULA then
         RETURN_IF_ERROR (check_column_type w) (return OK)
       else return OK))))))"

subsection \<open>Reading: batches\<close>

text \<open>\<^verbatim>\<open>Block::get_by_position\<close>: a position outside the block is undefined behaviour.\<close>

definition get_by_position :: "Block \<Rightarrow> nat \<Rightarrow> ColumnWithTypeAndName option" where
  "get_by_position block i = (if i < length block then Some (block ! i) else None)"

definition set_by_position ::
  "Block \<Rightarrow> nat \<Rightarrow> (ColumnWithTypeAndName \<Rightarrow> ColumnWithTypeAndName) \<Rightarrow> Block option" where
  "set_by_position block i f =
     (if i < length block then Some (block[i := f (block ! i)]) else None)"

definition replace_type_of :: "TypeDescriptor \<Rightarrow> string" where
  "replace_type_of ty =
     (if is_bitmap_type ty then ''bitmap''
      else if is_hll_type ty then ''hll''
      else if is_json_type ty then ''jsonb''
      else ''not_replace'')"

text \<open>
  The loop of \<^verbatim>\<open>_get_reader_params\<close> over the slots from \<open>i\<close> on. The four output
  streams are the texts written so far.
\<close>

fun get_reader_params_loop ::
  "SlotDescriptor list \<Rightarrow> nat \<Rightarrow> string \<times> string \<times> string \<times> string \<Rightarrow> Block \<Rightarrow>
   ((string \<times> string \<times> string \<times> string) \<times> Block) option" where
  "get_reader_params_loop [] i streams block = Some (streams, block)"
| "get_reader_params_loop (slot # rest) i
       (columns_nullable, columns_replace_string, required_fields, columns_types) block =
     (case
        (if is_materialized slot then
           (let replace_type = replace_type_of (slot_type slot) in
            case
              (if replace_type \<noteq> ''not_replace'' then
                 set_by_position block i (\<lambda>elem. elem
                   \<lparr> column := Some (if is_nullable slot
                        then make_nullable_column (create_column DataTypeString)
                        else create_column DataTypeString),
                     data_type := (if is_nullable slot then make_nullable DataTypeString
                        else DataTypeString) \<rparr>)
               else Some block)
            of None \<Rightarrow> None
             | Some block' \<Rightarrow>
                 Some (columns_nullable @ (if is_nullable slot then ''true'' else ''false'') @ '','',
                       columns_replace_string @ replace_type @ '','',
                       block'))
         else Some (columns_nullable, columns_replace_string, block))
      of None \<Rightarrow> None
       | Some (columns_nullable', columns_replace_string', block') \<Rightarrow>
           (let field = col_name slot;
                jni_type =
                  (if is_bitmap_type (slot_type slot) \<or> is_hll_type (slot_type slot) \<or>
                      is_json_type (slot_type slot)
                   then ''string'' else jni_type (slot_type slot))
            in get_reader_params_loop rest (Suc i)
                 (columns_nullable', columns_replace_string',
                  required_fields @ (if i \<noteq> 0 then '','' else []) @ field,
                  columns_types @ (if i \<noteq> 0 then ''#'' else []) @ jni_type)
                 block'))"

text \<open>
  \<^verbatim>\<open>_get_reader_params(block, env, column_size)\<close>: the parameter map (handed to
  \<^verbatim>\<open>convert_to_java_map\<close>) and the block with its staging string columns.
\<close>

definition get_reader_params ::
  "world \<Rightarrow> Block \<Rightarrow> nat \<Rightarrow> ((string \<times> string) list \<times> Block) exec" where
  "get_reader_params w block column_size =
     seq (gets slots) (\<lambda>tuple_slots.
     seq (require (\<lambda>s. column_size \<le> length tuple_slots)) (\<lambda>_.
     seq (defined (get_reader_params_loop (take column_size tuple_slots) 0 ([], [], [], []) block))
       (\<lambda>((columns_nullable, columns_replace_string, required_fields, columns_types), block).
     let reader_params =
           [(''is_nullable'', columns_nullable),
            (''replace_string'', columns_replace_string),
            (''required_fields'', required_fields),
            (''columns_types'', columns_types)]
     in seq (ext w (convert_to_java_map reader_params)) (\<lambda>_.
        return (reader_params, block)))))"

text \<open>
  \<^verbatim>\<open>JniConnector::fill_block(block, all_columns, address)\<close>: the columns at the given
  positions are filled from the foreign memory region; their types stay as they are.
\<close>

definition fill_block_columns :: "(nat \<Rightarrow> Column) \<Rightarrow> Block \<Rightarrow> nat list \<Rightarrow> Block" where
  "fill_block_columns cols block all_columns =
     foldl (\<lambda>b i. b[i := (b ! i)\<lparr>column := Some (cols i)\<rparr>]) block all_columns"

definition JniConnector_fill_block ::
  "world \<Rightarrow> Block \<Rightarrow> nat list \<Rightarrow> int \<Rightarrow> (Status \<times> Block) exec" where
  "JniConnector_fill_block w block all_columns address =
     seq (require (\<lambda>s. list_all (\<lambda>i. i < length block) all_columns)) (\<lambda>_.
     seq (ext w (fill_block all_columns address)) (\<lambda>r.
     return (r_status r, fill_block_columns (r_columns r) block all_columns)))"

text \<open>
  The body shared by \<^verbatim>\<open>_cast_string_to_hll\<close>, \<^verbatim>\<open>_cast_string_to_bitmap\<close> and
  \<^verbatim>\<open>_cast_string_to_json\<close>, which differ in the cast plan they read (\<open>get_map\<close>,
  \<open>set_map\<close>, \<open>get_types\<close>) and in the constant of the target type (\<open>cast_param\<close>).
  Moving the input column out of the block leaves a null pointer there. The \<^verbatim>\<open>CAST\<close>
  function is looked up with the nullable target type as its return type: its result
  column is a \<^verbatim>\<open>ColumnNullable\<close>, of the nested column and null map the call answers.
\<close>

definition cast_string_to ::
  "(JdbcConnector \<Rightarrow> nat \<rightharpoonup> nat) \<Rightarrow>
   ((nat \<rightharpoonup> nat) \<Rightarrow> JdbcConnector \<Rightarrow> JdbcConnector) \<Rightarrow>
   (JdbcConnector \<Rightarrow> DataType list) \<Rightarrow> string \<Rightarrow>
   world \<Rightarrow> SlotDescriptor \<Rightarrow> Block \<Rightarrow> nat \<Rightarrow> int \<Rightarrow> (Status \<times> Block) exec" where
  "cast_string_to get_map set_map get_types cast_param w slot_desc block column_index num_rows =
     (let target_data_type = get_data_type_ptr slot_desc in
      seq (defined (get_by_position block column_index)) (\<lambda>elem.
      seq (gets get_map) (\<lambda>m.
      case map_subscript m column_index of (idx, m) \<Rightarrow>
      seq (modify (set_map m)) (\<lambda>_.
      seq (gets get_types) (\<lambda>types.
      seq (defined (vector_at types idx)) (\<lambda>input_type.
      let input_col = column elem;
          block = block[column_index := elem\<lparr>column := None\<rparr>]
      in
      seq (ext w (CAST_execute input_col input_type target_data_type cast_param num_rows)) (\<lambda>r.
      if r_status r \<noteq> OK then return (r_status r, block)
      else
        let res_col = ColumnNullable (r_column r) (r_null_map r);
            block = block[column_index := (block ! column_index)\<lparr>data_type := target_data_type\<rparr>]
        in
        if dt_is_nullable target_data_type then
          return (OK, block[column_index := (block ! column_index)\<lparr>column := Some res_col\<rparr>])
        else
          (case res_col of
             ColumnNullable nested_ptr null_map \<Rightarrow>
               return (OK, block[column_index :=
                 (block ! column_index)\<lparr>column := Some nested_ptr\<rparr>])
           | ColumnVector t cells \<Rightarrow> defined None))))))))"

definition cast_string_to_hll ::
  "world \<Rightarrow> SlotDescriptor \<Rightarrow> Block \<Rightarrow> nat \<Rightarrow> int \<Rightarrow> (Status \<times> Block) exec" where
  "cast_string_to_hll =
     cast_string_to map_column_idx_to_cast_idx_hll
       (\<lambda>m s. s\<lparr>map_column_idx_to_cast_idx_hll := m\<rparr>) input_hll_string_types []"

definition cast_string_to_bitmap ::
  "world \<Rightarrow> SlotDescriptor \<Rightarrow> Block \<Rightarrow> nat \<Rightarrow> int \<Rightarrow> (Status \<times> Block) exec" where
  "cast_string_to_bitmap =
     cast_string_to map_column_idx_to_cast_idx_bitmap
       (\<lambda>m s. s\<lparr>map_column_idx_to_cast_idx_bitmap := m\<rparr>) input_bitmap_string_types []"

definition cast_string_to_json ::
  "world \<Rightarrow> SlotDescriptor \<Rightarrow> Block \<Rightarrow> nat \<Rightarrow> int \<Rightarrow> (Status \<times> Block) exec" where
  "cast_string_to_json =
     cast_string_to map_column_idx_to_cast_idx_json
       (\<lambda>m s. s\<lparr>map_column_idx_to_cast_idx_json := m\<rparr>) input_json_string_types ''{}''"

text \<open>The loop of \<^verbatim>\<open>_cast_string_to_special\<close> over the slots from \<open>column_index\<close> on.\<close>

fun cast_string_to_special_loop ::
  "world \<Rightarrow> SlotDescriptor list \<Rightarrow> nat \<Rightarrow> Block \<Rightarrow> (Status \<times> Block) exec" where
  "cast_string_to_special_loop w [] column_index block = return (OK, block)"
| "cast_string_to_special_loop w (slot_desc # rest) column_index block =
     (if \<not> is_materialized slot_desc then
        cast_string_to_special_loop w rest (Suc column_index) block
      else
        seq (CallNonvirtualMethod w executor_block_rows_id []) (\<lambda>num_rows.
        RETURN_IF_ERROR_OUT GetJniExceptionMsg block (
        seq (if is_hll_type (slot_type slot_desc) then
               cast_string_to_hll w slot_desc block column_index (r_int num_rows)
             else if is_json_type (slot_type slot_desc) then
               cast_string_to_json w slot_desc block column_index (r_int num_rows)
             else if is_bitmap_type (slot_type slot_desc) then
               cast_string_to_bitmap w slot_desc block column_index (r_int num_rows)
             else return (OK, block)) (\<lambda>(st, block').
        if st \<noteq> OK then return (st, block')
        else cast_string_to_special_loop w rest (Suc column_index) block'))))"

definition cast_string_to_special :: "world \<Rightarrow> Block \<Rightarrow> nat \<Rightarrow> (Status \<times> Block) exec" where
  "cast_string_to_special w block column_size =
     seq (gets slots) (\<lambda>tuple_slots.
     seq (require (\<lambda>s. column_size \<le> length tuple_slots)) (\<lambda>_.
     cast_string_to_special_loop w (take column_size tuple_slots) 0 block))"

text \<open>
  \<^verbatim>\<open>JdbcConnector::get_next(eos, block, batch_size)\<close>. The result is the status, what
  \<^verbatim>\<open>*eos\<close> holds afterwards (\<open>eos\<close> is what it held before), and the block.
\<close>

definition get_next :: "world \<Rightarrow> bool \<Rightarrow> Block \<Rightarrow> int \<Rightarrow> (Status \<times> bool \<times> Block) exec" where
  "get_next w eos block batch_size =
     seq (gets is_open) (\<lambda>opened.
     if \<not> opened then
       return (InternalError ''get_next before open of jdbc connector.'', eos, block)
     else
       RETURN_IF_ERROR_OUT (ext_status w GetJNIEnv) (eos, block) (
       seq (CallNonvirtualMethod w executor_has_next_id []) (\<lambda>has_next.
       if \<not> r_bool has_next then return (OK, True, block)
       else
       RETURN_IF_ERROR_OUT GetJniExceptionMsg (eos, block) (
       seq (gets (\<lambda>s. length (slots s))) (\<lambda>column_size.
       seq (get_reader_params w block column_size) (\<lambda>(map, block).
       seq (CallExecutorMethod w executor_get_block_address_id [JInt batch_size, JMap map])
         (\<lambda>address.
       RETURN_IF_ERROR_OUT GetJniExceptionMsg (eos, block) (
       seq (ext w DeleteLocalRef) (\<lambda>_.
       seq (JniConnector_fill_block w block [0..<column_size] (r_int address))
         (\<lambda>(fill_block_status, block).
       if fill_block_status \<noteq> OK then return (fill_block_status, eos, block)
       else
       seq (cast_string_to_special w block column_size) (\<lambda>(cast_status, block).
       if cast_status \<noteq> OK then return (cast_status, eos, block)
       else
       seq GetJniExceptionMsg (\<lambda>st. return (st, eos, block)))))))))))))"

subsection \<open>Writing\<close>

text \<open>\<^verbatim>\<open>std::to_string\<close> of a \<^verbatim>\<open>long\<close>.\<close>

fun decimal :: "nat \<Rightarrow> string" where
  "decimal n =
     (if n < 10 then [char_of (48 + n)]
      else decimal (n div 10) @ [char_of (48 + n mod 10)])"

declare decimal.simps [simp del]

definition std_to_string :: "int \<Rightarrow> string" where
  "std_to_string i = (if i < 0 then ''-'' @ decimal (nat (- i)) else decimal (nat i))"

text \<open>
  \<^verbatim>\<open>JdbcConnector::exec_stmt_write(block, output_vexpr_ctxs, num_rows_sent)\<close>. The
  result is the status and what \<^verbatim>\<open>*num_rows_sent\<close> holds afterwards, a
  \<^verbatim>\<open>uint32_t\<close>; what the foreign \<^verbatim>\<open>write\<close> returns is dropped.
\<close>

definition exec_stmt_write :: "world \<Rightarrow> Block \<Rightarrow> nat \<Rightarrow> (Status \<times> nat) exec" where
  "exec_stmt_write w block num_rows_sent =
     RETURN_IF_ERROR_OUT (ext_status w GetJNIEnv) num_rows_sent (
     seq (ext w (to_java_table block)) (\<lambda>meta_data.
     if r_status meta_data \<noteq> OK then return (r_status meta_data, num_rows_sent)
     else
     let meta_address = r_int meta_data in
     seq (ext w (parse_table_schema block)) (\<lambda>table_schema.
     let write_params =
           [(''meta_address'', std_to_string meta_address),
            (''required_fields'', fst (r_schema table_schema)),
            (''columns_types'', snd (r_schema table_schema))]
     in
     seq (ext w (convert_to_java_map write_params)) (\<lambda>hashmap_object.
     seq (CallNonvirtualMethod w executor_stmt_write_id [JMap write_params]) (\<lambda>_.
     seq (ext w DeleteLocalRef) (\<lambda>_.
     RETURN_IF_ERROR_OUT GetJniExceptionMsg num_rows_sent (
     return (OK, rows block mod 2 ^ 32))))))))"

text \<open>
  \<^verbatim>\<open>JdbcConnector::append(block, output_vexpr_ctxs, start_send_row, num_rows_sent,
  table_type)\<close>.
\<close>

definition append_block :: "world \<Rightarrow> Block \<Rightarrow> nat \<Rightarrow> nat \<Rightarrow> TOdbcTableType \<Rightarrow> (Status \<times> nat) exec" where
  "append_block w block start_send_row num_rows_sent tbl_type =
     seq (exec_stmt_write w block num_rows_sent) (\<lambda>(st, num_rows_sent).
     if st \<noteq> OK then return (st, num_rows_sent)
     else
     seq (modify (\<lambda>s. s\<lparr>sent_rows_counter := sent_rows_counter s + int num_rows_sent\<rparr>)) (\<lambda>_.
     return (OK, num_rows_sent)))"

subsection \<open>Sequences of operations\<close>

datatype operation =
    Op_open int bool
  | Op_query
  | Op_get_next bool Block int
  | Op_append Block nat nat TOdbcTableType
  | Op_exec_stmt_write Block nat
  | Op_begin_trans
  | Op_abort_trans
  | Op_finish_trans
  | Op_close

definition state_after :: "'a exec \<Rightarrow> JdbcConnector \<Rightarrow> JdbcConnector option" where
  "state_after m s = map_option snd (m s)"

fun step :: "world \<Rightarrow> operation \<Rightarrow> JdbcConnector \<Rightarrow> JdbcConnector option" where
  "step w (Op_open batch_size read) s = state_after (open_connector w batch_size read) s"
| "step w Op_query s = state_after (query w) s"
| "step w (Op_get_next eos block batch_size) s = state_after (get_next w eos block batch_size) s"
| "step w (Op_append block start_send_row num_rows_sent tbl_type) s =
     state_after (append_block w block start_send_row num_rows_sent tbl_type) s"
| "step w (Op_exec_stmt_write block num_rows_sent) s =
     state_after (exec_stmt_write w block num_rows_sent) s"
| "step w Op_begin_trans s = state_after (begin_trans w) s"
| "step w Op_abort_trans s = state_after (abort_trans w) s"
| "step w Op_finish_trans s = state_after (finish_trans w) s"
| "step w Op_close s = state_after (close w) s"

fun run :: "world \<Rightarrow> operation list \<Rightarrow> JdbcConnector \<Rightarrow> JdbcConnector option" where
  "run w [] s = Some s"
| "run w (x # xs) s = (case step w x s of None \<Rightarrow> None | Some s' \<Rightarrow> run w xs s')"

subsection \<open>Example configurations\<close>

text \<open>
  A table of three materialized columns (an integer, an HLL and a JSONB column) and one
  column that is not materialized, and a foreign side that answers every call without
  an exception.
\<close>

definition example_slots :: "SlotDescriptor list" where
  "example_slots =
     [\<lparr>col_name = ''k1'',
       slot_type = \<lparr>type = TYPE_INT, debug_string = ''INT'', jni_type = ''int''\<rparr>,
       is_nullable = False, is_materialized = True\<rparr>,
      \<lparr>col_name = ''h1'',
       slot_type = \<lparr>type = TYPE_HLL, debug_string = ''HLL'', jni_type = ''string''\<rparr>,
       is_nullable = False, is_materialized = True\<rparr>,
      \<lparr>col_name = ''v1'',
       slot_type = \<lparr>type = TYPE_DOUBLE, debug_string = ''DOUBLE'', jni_type = ''double''\<rparr>,
       is_nullable = True, is_materialized = False\<rparr>,
      \<lparr>col_name = ''j1'',
       slot_type = \<lparr>type = TYPE_JSONB, debug_string = ''JSONB'', jni_type = ''string''\<rparr>,
       is_nullable = True, is_materialized = True\<rparr>]"

definition example_param :: "TOdbcTableType \<Rightarrow> bool \<Rightarrow> JdbcConnectorParam" where
  "example_param tbl transactional =
     \<lparr> driver_path = ''mysql-connector-java.jar'',
       driver_class = ''com.mysql.jdbc.Driver'',
       resource_name = [],
       driver_checksum = [],
       jdbc_url = ''jdbc:mysql://127.0.0.1:3306/db'',
       user = ''root'',
       passwd = [],
       query_string = ''select k1, h1, j1 from t'',
       table_name = ''t'',
       use_transaction = transactional,
       table_type = tbl,
       min_pool_size = 1,
       max_pool_size = 10,
       max_idle_time = 5000,
       max_wait_time = 5000,
       keep_alive = False,
       tuple_desc = example_slots \<rparr>"

definition quiet :: response where
  "quiet =
     \<lparr> r_status = OK, r_int = 3, r_bool = True, r_string = ''java.lang.String'',
       r_null = False, r_exc = None, r_schema = (''k1,h1,j1'', ''int#string#string''),
       r_columns = (\<lambda>i. ColumnVector DataTypeString [''a'', ''b'']),
       r_column = ColumnVector (DataTypeOf TYPE_HLL) [''a'', ''b''],
       r_null_map = [False, False] \<rparr>"

text \<open>
  The reported type names are \<open>java.lang.Integer\<close> for the first column and
  \<open>java.lang.String\<close> for the others: the name is read by the \<^verbatim>\<open>getBytes\<close> call
  that follows \<^verbatim>\<open>get(0)\<close>, \<^verbatim>\<open>toString\<close> and \<^verbatim>\<open>NewStringUTF\<close>.
\<close>

definition example_world :: world where
  "example_world log c =
     (case c of
        CallMethod m args \<Rightarrow>
          if m = get_bytes_id \<and>
             take 1 (drop 2 (rev log)) = [CallMethod executor_get_list_id [JInt 0]]
          then quiet\<lparr>r_string := ''java.lang.Integer''\<rparr>
          else quiet
      | _ \<Rightarrow> quiet)"

text \<open>A foreign side where \<^verbatim>\<open>hasNext\<close> raises, and the JNI call returns false.\<close>

definition has_next_raises :: world where
  "has_next_raises log c =
     (case c of
        CallMethod m args \<Rightarrow>
          if m = executor_has_next_id
          then quiet\<lparr>r_bool := False,
                     r_exc := Some ''java.sql.SQLException: connection reset''\<rparr>
          else quiet
      | _ \<Rightarrow> quiet)"

text \<open>The foreign side \<open>w\<close>, but with the \<^verbatim>\<open>write\<close> call returning the row count \<open>n\<close>.\<close>

definition foreign_write_returns :: "int \<Rightarrow> world \<Rightarrow> world" where
  "foreign_write_returns n w log c =
     (case c of
        CallMethod m args \<Rightarrow>
          if m = executor_stmt_write_id then (w log c)\<lparr>r_int := n\<rparr> else w log c
      | _ \<Rightarrow> w log c)"

text \<open>A foreign side where the \<^verbatim>\<open>read\<close> call reports \<open>n\<close> result columns.\<close>

definition read_returns :: "int \<Rightarrow> world" where
  "read_returns n log c =
     (case c of
        CallMethod m args \<Rightarrow> if m = executor_read_id then quiet\<lparr>r_int := n\<rparr> else quiet
      | _ \<Rightarrow> quiet)"

text \<open>A process in which no JNI environment can be obtained.\<close>

definition no_jni_env :: world where
  "no_jni_env log c =
     (case c of
        GetJNIEnv \<Rightarrow> quiet\<lparr>r_status := InternalError ''Failed to get JNIEnv''\<rparr>
      | _ \<Rightarrow> quiet)"

text \<open>
  A process in which the JNI environment can no longer be obtained once the executor
  object has been released.
\<close>

definition jni_env_lost_after_close :: world where
  "jni_env_lost_after_close log c =
     (case c of
        GetJNIEnv \<Rightarrow>
          if DeleteGlobalRef executor_obj \<in> set log
          then quiet\<lparr>r_status := InternalError ''Failed to get JNIEnv''\<rparr>
          else quiet
      | _ \<Rightarrow> quiet)"

text \<open>A block of one string column with \<open>n\<close> rows.\<close>

definition block_of_rows :: "nat \<Rightarrow> Block" where
  "block_of_rows n =
     [\<lparr>column = Some (ColumnVector DataTypeString (replicate n ''x'')),
       data_type = DataTypeString, name = ''k1''\<rparr>]"

text \<open>The block the scan node hands to \<^verbatim>\<open>get_next\<close>: one empty column per slot.\<close>

definition example_block :: Block where
  "example_block =
     map (\<lambda>slot. \<lparr>column = Some (create_column (get_data_type_ptr slot)),
                  data_type = get_data_type_ptr slot, name = col_name slot\<rparr>) example_slots"

text \<open>
  The external calls of a successful \<^verbatim>\<open>open\<close> for reading with batch size 4096, and
  the connector it leaves.
\<close>

definition open_calls :: "TOdbcTableType \<Rightarrow> bool \<Rightarrow> ext_call list" where
  "open_calls tbl transactional =
     [GetJNIEnv, get_jni_scanner_class JDBC_EXECUTOR_CLASS,
      GetGlobalClassRef ''java/util/List'',
      GetGlobalClassRef ''java/lang/Object'',
      GetGlobalClassRef ''java/lang/String'',
      GetMethodID executor_clazz ''<init>'' JDBC_EXECUTOR_CTOR_SIGNATURE,
      GetMethodID executor_clazz ''write'' JDBC_EXECUTOR_STMT_WRITE_SIGNATURE,
      GetMethodID executor_clazz ''read'' ''()I'',
      GetMethodID executor_clazz ''close'' JDBC_EXECUTOR_CLOSE_SIGNATURE,
      GetMethodID executor_clazz ''hasNext'' JDBC_EXECUTOR_HAS_NEXT_SIGNATURE,
      GetMethodID executor_clazz ''getBlockAddress'' ''(ILjava/util/Map;)J'',
      GetMethodID executor_clazz ''getCurBlockRows'' ''()I'',
      GetMethodID executor_list_clazz ''get'' ''(I)Ljava/lang/Object;'',
      GetMethodID executor_string_clazz ''getBytes'' ''(Ljava/lang/String;)[B'',
      GetMethodID executor_object_clazz ''toString'' ''()Ljava/lang/String;'',
      GetMethodID executor_clazz ''openTrans'' JDBC_EXECUTOR_TRANSACTION_SIGNATURE,
      GetMethodID executor_clazz ''commitTrans'' JDBC_EXECUTOR_TRANSACTION_SIGNATURE,
      GetMethodID executor_clazz ''rollbackTrans'' JDBC_EXECUTOR_TRANSACTION_SIGNATURE,
      GetMethodID executor_clazz ''getResultColumnTypeNames'' JDBC_EXECUTOR_GET_TYPES_SIGNATURE,
      get_jarpath ''mysql-connector-java.jar'' ''mysql-connector-java.jar'' [],
      jni_frame_push,
      SerializeThriftMsg
        \<lparr>ctor_statement = ''select k1, h1, j1 from t'',
         ctor_jdbc_url = ''jdbc:mysql://127.0.0.1:3306/db'',
         ctor_jdbc_user = ''root'', ctor_jdbc_password = [],
         ctor_jdbc_driver_class = ''com.mysql.jdbc.Driver'',
         ctor_driver_path = ''java.lang.String'',
         ctor_batch_size = 4096, ctor_op = READ,
         ctor_table_type = tbl, ctor_min_pool_size = 1,
         ctor_max_pool_size = 10, ctor_max_idle_time = 5000,
         ctor_max_wait_time = 5000, ctor_keep_alive = False\<rparr>,
      NewObject executor_ctor_id, GetByteArrayElements,
      ReleaseByteArrayElements, DeleteLocalRef,
      LocalToGlobalRef executor_obj] @
     (if transactional then [GetJNIEnv, CallMethod executor_begin_trans_id []] else []) @
     [jni_frame_pop]"

definition example_opened :: "TOdbcTableType \<Rightarrow> bool \<Rightarrow> JdbcConnector" where
  "example_opened tbl transactional =
     (JdbcConnector_ctor (example_param tbl transactional))
       \<lparr> is_open := True,
         is_in_transaction := transactional,
         refs := (\<lambda>v. GlobalRef),
         func_ids := (\<lambda>m. True),
         calls := open_calls tbl transactional \<rparr>"

text \<open>
  The external calls of \<^verbatim>\<open>query\<close> on that connector, with type validation, and the
  connector it leaves: the cast plan has an entry for the HLL column (index 1) and one
  for the JSONB column (index 3).
\<close>

definition query_calls :: "ext_call list" where
  "query_calls =
     [GetJNIEnv, CallMethod executor_read_id [], GetJNIEnv,
      CallMethod executor_get_types_id [],
      CallMethod executor_get_list_id [JInt 0],
      CallMethod to_string_id [], NewStringUTF ''UTF-8'',
      CallMethod get_bytes_id [JString ''UTF-8''], GetArrayLength,
      GetByteArrayElements, ReleaseByteArrayElements, DeleteLocalRef,
      DeleteLocalRef, DeleteLocalRef, DeleteLocalRef,
      CallMethod executor_get_list_id [JInt 1],
      CallMethod to_string_id [], NewStringUTF ''UTF-8'',
      CallMethod get_bytes_id [JString ''UTF-8''], GetArrayLength,
      GetByteArrayElements, ReleaseByteArrayElements, DeleteLocalRef,
      DeleteLocalRef, DeleteLocalRef, DeleteLocalRef,
      CallMethod executor_get_list_id [JInt 2],
      CallMethod to_string_id [], NewStringUTF ''UTF-8'',
      CallMethod get_bytes_id [JString ''UTF-8''], GetArrayLength,
      GetByteArrayElements, ReleaseByteArrayElements, DeleteLocalRef,
      DeleteLocalRef, DeleteLocalRef, DeleteLocalRef,
      DeleteLocalRef]"

definition example_queried :: JdbcConnector where
  "example_queried =
     (example_opened (OTHER_TABLE_TYPE 0) False)
       \<lparr> map_column_idx_to_cast_idx_json := [3 \<mapsto> 0],
         map_column_idx_to_cast_idx_hll := [1 \<mapsto> 0],
         input_json_string_types := [DataTypeNullable DataTypeString],
         input_hll_string_types := [DataTypeString],
         str_json_cols := [ColumnNullable (ColumnVector DataTypeString []) []],
         str_hll_cols := [ColumnVector DataTypeString []],
         calls := open_calls (OTHER_TABLE_TYPE 0) False @ query_calls \<rparr>"

text \<open>The connector after \<^verbatim>\<open>open\<close> and one \<^verbatim>\<open>close\<close>.\<close>

definition example_closed :: JdbcConnector where
  "example_closed =
     (example_opened (OTHER_TABLE_TYPE 0) False)
       \<lparr> closed := True,
         refs := (\<lambda>v. Freed),
         calls := open_calls (OTHER_TABLE_TYPE 0) False @
           [GetJNIEnv, DeleteGlobalRef executor_clazz, DeleteGlobalRef executor_object_clazz,
            DeleteGlobalRef executor_string_clazz, DeleteGlobalRef executor_list_clazz,
            CallMethod executor_close_id [], DeleteGlobalRef executor_obj] \<rparr>"

text \<open>A foreign side that reports \<open>java.lang.Object\<close> as the type of every column.\<close>

definition reports_objects :: world where
  "reports_objects log c = quiet\<lparr>r_string := ''java.lang.Object''\<rparr>"

subsection \<open>The admissibility table of the specification\<close>

text \<open>
  The specification's \<open>TypeAdmissibilityTable\<close>: for each declared logical type, the set
  of reported type names that are acceptable. The string family is unconstrained (every
  reported name is accepted); a logical type without an entry has the empty set and is
  rejected unconditionally. The table names the families; the type names are the
  driver-reported Java class names.
\<close>

definition integer_names :: "string list" where
  "integer_names =
     [''java.lang.Short'', ''java.lang.Integer'', ''java.math.BigDecimal'', ''java.lang.Byte'',
      ''com.clickhouse.data.value.UnsignedByte'', ''com.clickhouse.data.value.UnsignedShort'',
      ''java.lang.Long'']"

definition big_integer_names :: "string list" where
  "big_integer_names =
     [''java.lang.Long'', ''java.math.BigDecimal'', ''java.math.BigInteger'',
      ''java.lang.String'', ''com.clickhouse.data.value.UnsignedInteger'',
      ''com.clickhouse.data.value.UnsignedLong'']"

definition temporal_names :: "string list" where
  "temporal_names =
     [''java.sql.Timestamp'', ''java.time.LocalDateTime'', ''java.sql.Date'',
      ''java.time.LocalDate'', ''oracle.sql.TIMESTAMP'', ''java.time.OffsetDateTime'']"

definition admissibilitySet :: "PrimitiveType \<Rightarrow> string set" where
  "admissibilitySet t =
     (case t of
        TYPE_BOOLEAN \<Rightarrow> set [''java.lang.Boolean'', ''java.lang.Byte'', ''java.lang.Integer'']
      | TYPE_TINYINT \<Rightarrow> set integer_names
      | TYPE_SMALLINT \<Rightarrow> set integer_names
      | TYPE_INT \<Rightarrow> set integer_names
      | TYPE_BIGINT \<Rightarrow> set big_integer_names
      | TYPE_LARGEINT \<Rightarrow> set big_integer_names
      | TYPE_FLOAT \<Rightarrow> set [''java.lang.Float'', ''java.math.BigDecimal'']
      | TYPE_DOUBLE \<Rightarrow> set [''java.lang.Double'', ''java.math.BigDecimal'']
      | TYPE_CHAR \<Rightarrow> UNIV
      | TYPE_VARCHAR \<Rightarrow> UNIV
      | TYPE_STRING \<Rightarrow> UNIV
      | TYPE_DATE \<Rightarrow> set temporal_names
      | TYPE_DATEV2 \<Rightarrow> set temporal_names
      | TYPE_TIMEV2 \<Rightarrow> set temporal_names
      | TYPE_DATETIME \<Rightarrow> set temporal_names
      | TYPE_DATETIMEV2 \<Rightarrow> set temporal_names
      | TYPE_DECIMALV2 \<Rightarrow> set [''java.math.BigDecimal'']
      | TYPE_DECIMAL32 \<Rightarrow> set [''java.math.BigDecimal'']
      | TYPE_DECIMAL64 \<Rightarrow> set [''java.math.BigDecimal'']
      | TYPE_DECIMAL128I \<Rightarrow> set [''java.math.BigDecimal'']
      | TYPE_DECIMAL256 \<Rightarrow> set [''java.math.BigDecimal'']
      | TYPE_ARRAY \<Rightarrow> set [''java.sql.Array'', ''java.lang.String'', ''java.lang.Object'']
      | TYPE_JSONB \<Rightarrow> set [''java.lang.String'', ''org.postgresql.util.PGobject'']
      | TYPE_HLL \<Rightarrow> set [''java.lang.String'']
      | TYPE_OBJECT \<Rightarrow> set [''java.lang.String'']
      | TYPE_OTHER n \<Rightarrow> {})"

subsection \<open>Assertions\<close>

text \<open>
  \<open>hoare P m Q\<close>: when \<open>m\<close> runs from a state that satisfies \<open>P\<close> and returns, its result
  and the state it leaves satisfy \<open>Q\<close>. \<open>preserves P m\<close>: \<open>m\<close> keeps \<open>P\<close>.
  \<open>keeps f m\<close>: \<open>m\<close> leaves the part \<open>f\<close> of the state as it is.
\<close>

definition hoare :: "(JdbcConnector \<Rightarrow> bool) \<Rightarrow> 'a exec \<Rightarrow> ('a \<Rightarrow> JdbcConnector \<Rightarrow> bool) \<Rightarrow> bool" where
  "hoare P m Q = (\<forall>s r s'. P s \<longrightarrow> m s = Some (r, s') \<longrightarrow> Q r s')"

definition preserves :: "(JdbcConnector \<Rightarrow> bool) \<Rightarrow> 'a exec \<Rightarrow> bool" where
  "preserves P m = hoare P m (\<lambda>r. P)"

definition keeps :: "(JdbcConnector \<Rightarrow> 'b) \<Rightarrow> 'a exec \<Rightarrow> bool" where
  "keeps f m = (\<forall>s r s'. m s = Some (r, s') \<longrightarrow> f s' = f s)"

text \<open>
  A part of the state that does not depend on the members the read and write paths
  assign: the call log, the pending exception, the cast plan and the row counter.
\<close>

definition unaffected :: "(JdbcConnector \<Rightarrow> 'b) \<Rightarrow> bool" where
  "unaffected f =
     (\<forall>s. (\<forall>x. f (s\<lparr>calls := x\<rparr>) = f s) \<and>
          (\<forall>x. f (s\<lparr>pending := x\<rparr>) = f s) \<and>
          (\<forall>x. f (s\<lparr>sent_rows_counter := x\<rparr>) = f s) \<and>
          (\<forall>x. f (s\<lparr>map_column_idx_to_cast_idx_json := x\<rparr>) = f s) \<and>
          (\<forall>x. f (s\<lparr>map_column_idx_to_cast_idx_hll := x\<rparr>) = f s) \<and>
          (\<forall>x. f (s\<lparr>map_column_idx_to_cast_idx_bitmap := x\<rparr>) = f s) \<and>
          (\<forall>x. f (s\<lparr>input_json_string_types := x\<rparr>) = f s) \<and>
          (\<forall>x. f (s\<lparr>input_hll_string_types := x\<rparr>) = f s) \<and>
          (\<forall>x. f (s\<lparr>input_bitmap_string_types := x\<rparr>) = f s) \<and>
          (\<forall>x. f (s\<lparr>str_json_cols := x\<rparr>) = f s) \<and>
          (\<forall>x. f (s\<lparr>str_hll_cols := x\<rparr>) = f s) \<and>
          (\<forall>x. f (s\<lparr>str_bitmap_cols := x\<rparr>) = f s))"

text \<open>The lifecycle flags and the executor handle.\<close>

definition flags :: "JdbcConnector \<Rightarrow> bool \<times> bool \<times> jref" where
  "flags s = (is_open s, is_in_transaction s, refs s executor_obj)"

text \<open>An assertion that depends on the flags and the handle only.\<close>

definition flag_pred :: "(JdbcConnector \<Rightarrow> bool) \<Rightarrow> bool" where
  "flag_pred P = (\<forall>s s'. flags s' = flags s \<longrightarrow> P s \<longrightarrow> P s')"






subsection \<open>Lists of entries in a parameter text\<close>

text \<open>
  The two ways the reader parameters write a list of entries into one text: every entry
  followed by the separator, or the entries with the separator between them.
\<close>

definition entries_terminated :: "string \<Rightarrow> string list \<Rightarrow> string" where
  "entries_terminated sep es = concat (map (\<lambda>e. e @ sep) es)"

fun entries_separated :: "string \<Rightarrow> string list \<Rightarrow> string" where
  "entries_separated sep [] = []"
| "entries_separated sep [e] = e"
| "entries_separated sep (e # e' # es) = e @ sep @ entries_separated sep (e' # es)"

subsection \<open>Semi-structured columns\<close>

text \<open>
  The declared types whose values arrive as text and are cast after the import, and the
  column that replaces the staged one: the nullable result of the cast, or its nested
  column when the declared type is not nullable.
\<close>

definition semi_structured :: "SlotDescriptor \<Rightarrow> bool" where
  "semi_structured slot = (type (slot_type slot) \<in> {TYPE_HLL, TYPE_OBJECT, TYPE_JSONB})"

definition cast_result_column :: "response \<Rightarrow> bool \<Rightarrow> Column" where
  "cast_result_column r nullable =
     (if nullable then ColumnNullable (r_column r) (r_null_map r) else r_column r)"

section \<open>Properties\<close>

lemmas exec_defs = seq_def return_def gets_def modify_def require_def defined_def
  RETURN_IF_ERROR_def RETURN_IF_ERROR_OUT_def

lemmas name_defs = integer_names_def big_integer_names_def temporal_names_def

subsection \<open>The type check against the admissibility table\<close>

lemma check_type_rejects:
  "R \<notin> admissibilitySet (type (slot_type slot)) \<Longrightarrow>
   check_type slot R i s = Some (InternalError (error_msg slot R), s)"
  by (cases "type (slot_type slot)")
     (simp_all add: check_type_def admissibilitySet_def name_defs return_def Let_def)

lemma check_type_accepts:
  "R \<in> admissibilitySet (type (slot_type slot)) \<Longrightarrow> \<exists>s'. check_type slot R i s = Some (OK, s')"
  by (cases "type (slot_type slot)")
     (auto simp add: check_type_def admissibilitySet_def name_defs exec_defs Let_def
        record_cast_plan_def map_subscript_def vector_at_def nth_append)

lemma check_type_integer_family:
  "type (slot_type slot) \<in> {TYPE_TINYINT, TYPE_SMALLINT, TYPE_INT} \<Longrightarrow>
   check_type slot ''java.lang.Byte'' i s = Some (OK, s) \<and>
   check_type slot ''java.lang.Object'' i s =
     Some (InternalError (error_msg slot ''java.lang.Object''), s)"
  by (auto simp add: check_type_def return_def Let_def)

text \<open>
  C1. For every declared column type and every reported type name, \<open>_check_type\<close>
  accepts the pair exactly when the name is in the admissibility set of the type. A
  rejection is an error whose message carries the reported name, the declared type and
  the column name, and leaves the connector as it was. In particular, for a declared
  integer type (\<open>TINYINT\<close>, \<open>SMALLINT\<close>, \<open>INT\<close>) the name \<open>java.lang.Byte\<close> is accepted and
  the name \<open>java.lang.Object\<close> is rejected with that error.
\<close>

theorem check_type_accepts_iff_admissible:
  "((\<exists>s'. check_type slot R i s = Some (OK, s')) \<longleftrightarrow>
      R \<in> admissibilitySet (type (slot_type slot))) \<and>
   (R \<notin> admissibilitySet (type (slot_type slot)) \<longrightarrow>
      check_type slot R i s =
        Some (InternalError
               (''Fail to convert jdbc type of '' @ R @ '' to doris type '' @
                debug_string (slot_type slot) @ '' on column: '' @ col_name slot @
                ''. You need to check this column type between external table and doris table.''),
              s)) \<and>
   (type (slot_type slot) \<in> {TYPE_TINYINT, TYPE_SMALLINT, TYPE_INT} \<longrightarrow>
      check_type slot ''java.lang.Byte'' i s = Some (OK, s) \<and>
      check_type slot ''java.lang.Object'' i s =
        Some (InternalError
               (''Fail to convert jdbc type of java.lang.Object to doris type '' @
                debug_string (slot_type slot) @ '' on column: '' @ col_name slot @
                ''. You need to check this column type between external table and doris table.''),
              s))"
proof (intro conjI impI)
  show "(\<exists>s'. check_type slot R i s = Some (OK, s')) \<longleftrightarrow>
          R \<in> admissibilitySet (type (slot_type slot))"
  proof
    assume a: "\<exists>s'. check_type slot R i s = Some (OK, s')"
    show "R \<in> admissibilitySet (type (slot_type slot))"
    proof (rule ccontr)
      assume "R \<notin> admissibilitySet (type (slot_type slot))"
      from check_type_rejects [OF this, of i s] a show False by simp
    qed
  next
    assume "R \<in> admissibilitySet (type (slot_type slot))"
    then show "\<exists>s'. check_type slot R i s = Some (OK, s')"
      by (rule check_type_accepts)
  qed
next
  assume "R \<notin> admissibilitySet (type (slot_type slot))"
  then show "check_type slot R i s =
        Some (InternalError
               (''Fail to convert jdbc type of '' @ R @ '' to doris type '' @
                debug_string (slot_type slot) @ '' on column: '' @ col_name slot @
                ''. You need to check this column type between external table and doris table.''),
              s)"
    using check_type_rejects [of R slot i s] by (simp add: error_msg_def)
next
  assume t: "type (slot_type slot) \<in> {TYPE_TINYINT, TYPE_SMALLINT, TYPE_INT}"
  then show "check_type slot ''java.lang.Byte'' i s = Some (OK, s)"
    using check_type_integer_family by blast
  from t show "check_type slot ''java.lang.Object'' i s =
        Some (InternalError
               (''Fail to convert jdbc type of java.lang.Object to doris type '' @
                debug_string (slot_type slot) @ '' on column: '' @ col_name slot @
                ''. You need to check this column type between external table and doris table.''),
              s)"
    using check_type_integer_family [of slot i s] by (simp add: error_msg_def)
qed

theorem check_type_accepts_iff_admissible_witness:
  "check_type (hd example_slots) ''java.lang.Byte'' 0
     (JdbcConnector_ctor (example_param NEBULA False)) =
     Some (OK, JdbcConnector_ctor (example_param NEBULA False)) \<and>
   check_type (hd example_slots) ''java.lang.Object'' 0
     (JdbcConnector_ctor (example_param NEBULA False)) =
     Some (InternalError
            (''Fail to convert jdbc type of java.lang.Object to doris type INT on column: k1'' @
             ''. You need to check this column type between external table and doris table.''),
           JdbcConnector_ctor (example_param NEBULA False))"
proof -
  have t: "type (slot_type (hd example_slots)) \<in> {TYPE_TINYINT, TYPE_SMALLINT, TYPE_INT}"
    by (simp add: example_slots_def)
  from check_type_accepts_iff_admissible
         [of "hd example_slots" "''java.lang.Object''" 0
             "JdbcConnector_ctor (example_param NEBULA False)"] t
  show ?thesis by (simp add: example_slots_def)
qed

subsection \<open>Transactions\<close>

text \<open>
  C7. \<open>abort_trans()\<close> called while the connector is not in a transaction fails with the
  error "Abort transaction before begin trans." and leaves the connector unchanged: no
  foreign call is made, so no rollback. \<open>finish_trans()\<close> called while the connector is
  not in a transaction, or when transactional mode is not configured, returns success
  and leaves the connector unchanged.
\<close>

theorem abort_and_finish_outside_transaction:
  "(\<not> is_in_transaction s \<longrightarrow>
      abort_trans w s = Some (InternalError ''Abort transaction before begin trans.'', s)) \<and>
   (\<not> (use_tranaction s \<and> is_in_transaction s) \<longrightarrow> finish_trans w s = Some (OK, s))"
  by (simp add: abort_trans_def finish_trans_def exec_defs)

theorem abort_and_finish_outside_transaction_witness:
  "abort_trans example_world (JdbcConnector_ctor (example_param NEBULA True)) =
     Some (InternalError ''Abort transaction before begin trans.'',
           JdbcConnector_ctor (example_param NEBULA True)) \<and>
   finish_trans example_world (JdbcConnector_ctor (example_param NEBULA True)) =
     Some (OK, JdbcConnector_ctor (example_param NEBULA True))"
proof -
  have n: "\<not> is_in_transaction (JdbcConnector_ctor (example_param NEBULA True))"
    by (simp add: JdbcConnector_ctor_def)
  from abort_and_finish_outside_transaction
         [of "JdbcConnector_ctor (example_param NEBULA True)" example_world] n
  show ?thesis by blast
qed

lemmas prim_defs = ext_def jni_def ext_status_def GetJniExceptionMsg_def CallNonvirtualMethod_def
  CallExecutorMethod_def DeleteGlobalRef_var_def live_def get_class_ref_def register_id_def
  LocalToGlobalRef_var_def with_pushed_frame_def RETURN_ERROR_IF_EXC_def

subsection \<open>Rules for assertions\<close>

lemma hoareD: "hoare P m Q \<Longrightarrow> P s \<Longrightarrow> m s = Some (r, s') \<Longrightarrow> Q r s'"
  by (auto simp add: hoare_def)

lemma hoare_weaken:
  "hoare P' m Q' \<Longrightarrow> (\<And>s. P s \<Longrightarrow> P' s) \<Longrightarrow> (\<And>r s. Q' r s \<Longrightarrow> Q r s) \<Longrightarrow> hoare P m Q"
  unfolding hoare_def by blast

lemma hoare_return: "(\<And>s. P s \<Longrightarrow> Q a s) \<Longrightarrow> hoare P (return a) Q"
  by (auto simp add: hoare_def return_def)

lemma hoare_gets: "(\<And>s. P s \<Longrightarrow> Q (f s) s) \<Longrightarrow> hoare P (gets f) Q"
  by (auto simp add: hoare_def gets_def)

lemma hoare_modify: "(\<And>s. P s \<Longrightarrow> Q () (f s)) \<Longrightarrow> hoare P (modify f) Q"
  by (auto simp add: hoare_def modify_def)

lemma hoare_require: "(\<And>s. P s \<Longrightarrow> G s \<Longrightarrow> Q () s) \<Longrightarrow> hoare P (require G) Q"
  by (auto simp add: hoare_def require_def split: if_splits)

lemma hoare_defined: "(\<And>s a. P s \<Longrightarrow> x = Some a \<Longrightarrow> Q a s) \<Longrightarrow> hoare P (defined x) Q"
  by (auto simp add: hoare_def defined_def split: option.splits)

lemma hoare_seq:
  "hoare P m R \<Longrightarrow> (\<And>a. hoare (R a) (k a) Q) \<Longrightarrow> hoare P (seq m k) Q"
  by (auto simp add: hoare_def seq_def split: option.splits)

lemma hoare_RETURN_IF_ERROR:
  "hoare P m R \<Longrightarrow> hoare (R OK) k Q \<Longrightarrow> (\<And>st s. st \<noteq> OK \<Longrightarrow> R st s \<Longrightarrow> Q st s) \<Longrightarrow>
   hoare P (RETURN_IF_ERROR m k) Q"
  unfolding RETURN_IF_ERROR_def
  by (rule hoare_seq [where R = R]) (auto simp add: hoare_def return_def)

lemma hoare_RETURN_IF_ERROR_OUT:
  "hoare P m R \<Longrightarrow> hoare (R OK) k Q \<Longrightarrow> (\<And>st s. st \<noteq> OK \<Longrightarrow> R st s \<Longrightarrow> Q (st, out) s) \<Longrightarrow>
   hoare P (RETURN_IF_ERROR_OUT m out k) Q"
  unfolding RETURN_IF_ERROR_OUT_def
  by (rule hoare_seq [where R = R]) (auto simp add: hoare_def return_def)

lemma hoare_if:
  "(c \<Longrightarrow> hoare P a Q) \<Longrightarrow> (\<not> c \<Longrightarrow> hoare P b Q) \<Longrightarrow> hoare P (if c then a else b) Q"
  by simp

lemma hoare_ext:
  "(\<And>s. P s \<Longrightarrow> Q (w (calls s) c) (s\<lparr>calls := calls s @ [c]\<rparr>)) \<Longrightarrow> hoare P (ext w c) Q"
  by (auto simp add: hoare_def ext_def)

subsection \<open>Parts of the state that a function keeps\<close>

lemma keepsD: "keeps f m \<Longrightarrow> m s = Some (r, s') \<Longrightarrow> f s' = f s"
  by (auto simp add: keeps_def)

lemma keeps_return: "keeps f (return a)"
  by (simp add: keeps_def return_def)

lemma keeps_gets: "keeps f (gets g)"
  by (simp add: keeps_def gets_def)

lemma keeps_require: "keeps f (require G)"
  by (simp add: keeps_def require_def)

lemma keeps_defined: "keeps f (defined x)"
  by (simp add: keeps_def defined_def split: option.splits)

lemma keeps_modify: "(\<And>s. f (g s) = f s) \<Longrightarrow> keeps f (modify g)"
  by (simp add: keeps_def modify_def)

lemma keeps_seq: "keeps f m \<Longrightarrow> (\<And>a. keeps f (k a)) \<Longrightarrow> keeps f (seq m k)"
  by (auto simp add: keeps_def seq_def split: option.splits)

lemma keeps_if: "keeps f a \<Longrightarrow> keeps f b \<Longrightarrow> keeps f (if c then a else b)"
  by simp

lemma keeps_case_prod: "(\<And>a b. keeps f (g a b)) \<Longrightarrow> keeps f (case x of (a, b) \<Rightarrow> g a b)"
  by (cases x) simp

lemma keeps_case_option:
  "keeps f a \<Longrightarrow> (\<And>x. keeps f (g x)) \<Longrightarrow> keeps f (case y of None \<Rightarrow> a | Some x \<Rightarrow> g x)"
  by (cases y) simp_all

lemma keeps_Let: "(\<And>x. keeps f (g x)) \<Longrightarrow> keeps f (Let v g)"
  by (simp add: Let_def)

lemma keeps_RETURN_IF_ERROR: "keeps f m \<Longrightarrow> keeps f k \<Longrightarrow> keeps f (RETURN_IF_ERROR m k)"
  unfolding RETURN_IF_ERROR_def by (intro keeps_seq keeps_if keeps_return)

lemma keeps_RETURN_IF_ERROR_OUT:
  "keeps f m \<Longrightarrow> keeps f k \<Longrightarrow> keeps f (RETURN_IF_ERROR_OUT m out k)"
  unfolding RETURN_IF_ERROR_OUT_def by (intro keeps_seq keeps_if keeps_return)

lemma unaffected_simps:
  assumes "unaffected f"
  shows "f (s\<lparr>calls := x1\<rparr>) = f s"
    and "f (s\<lparr>pending := x2\<rparr>) = f s"
    and "f (s\<lparr>sent_rows_counter := x3\<rparr>) = f s"
    and "f (s\<lparr>map_column_idx_to_cast_idx_json := x4\<rparr>) = f s"
    and "f (s\<lparr>map_column_idx_to_cast_idx_hll := x5\<rparr>) = f s"
    and "f (s\<lparr>map_column_idx_to_cast_idx_bitmap := x6\<rparr>) = f s"
    and "f (s\<lparr>input_json_string_types := x7\<rparr>) = f s"
    and "f (s\<lparr>input_hll_string_types := x8\<rparr>) = f s"
    and "f (s\<lparr>input_bitmap_string_types := x9\<rparr>) = f s"
    and "f (s\<lparr>str_json_cols := y1\<rparr>) = f s"
    and "f (s\<lparr>str_hll_cols := y2\<rparr>) = f s"
    and "f (s\<lparr>str_bitmap_cols := y3\<rparr>) = f s"
  using assms by (simp_all add: unaffected_def)

lemma keeps_ext: "unaffected f \<Longrightarrow> keeps f (ext w c)"
  by (simp add: keeps_def ext_def unaffected_simps)

lemma keeps_jni: "unaffected f \<Longrightarrow> keeps f (jni w c)"
  unfolding jni_def
  by (intro keeps_seq keeps_ext keeps_modify keeps_return) (simp_all add: unaffected_simps)

lemma keeps_ext_status: "unaffected f \<Longrightarrow> keeps f (ext_status w c)"
  unfolding ext_status_def by (intro keeps_seq keeps_ext keeps_return)

lemma keeps_GetJniExceptionMsg: "unaffected f \<Longrightarrow> keeps f GetJniExceptionMsg"
  unfolding GetJniExceptionMsg_def
  by (intro keeps_seq keeps_gets keeps_case_option keeps_modify keeps_return)
     (simp_all add: unaffected_simps)

lemma keeps_CallNonvirtualMethod: "unaffected f \<Longrightarrow> keeps f (CallNonvirtualMethod w m args)"
  unfolding CallNonvirtualMethod_def by (intro keeps_seq keeps_require keeps_jni)

lemma keeps_CallExecutorMethod: "unaffected f \<Longrightarrow> keeps f (CallExecutorMethod w m args)"
  unfolding CallExecutorMethod_def by (intro keeps_seq keeps_require keeps_jni)

lemmas keeps_intros =
  keeps_return keeps_gets keeps_require keeps_defined keeps_seq keeps_if keeps_case_prod
  keeps_case_option keeps_Let keeps_RETURN_IF_ERROR keeps_RETURN_IF_ERROR_OUT keeps_ext
  keeps_jni keeps_ext_status keeps_GetJniExceptionMsg keeps_CallNonvirtualMethod
  keeps_CallExecutorMethod









lemma keeps_get_reader_params: "unaffected f \<Longrightarrow> keeps f (get_reader_params w block n)"
  unfolding get_reader_params_def Let_def
  by (auto intro!: keeps_intros split: prod.splits)

lemma keeps_JniConnector_fill_block:
  "unaffected f \<Longrightarrow> keeps f (JniConnector_fill_block w block cols a)"
  unfolding JniConnector_fill_block_def
  by (intro keeps_intros)










lemma unaffected_flags: "unaffected flags"
  by (simp add: unaffected_def flags_def)

lemma unaffected_slots: "unaffected slots"
  by (simp add: unaffected_def)

subsection \<open>Invariants of the lifecycle\<close>

lemma preservesI: "(\<And>s r s'. P s \<Longrightarrow> m s = Some (r, s') \<Longrightarrow> P s') \<Longrightarrow> preserves P m"
  by (simp add: preserves_def hoare_def)


lemma preserves_of_keeps: "flag_pred P \<Longrightarrow> keeps flags m \<Longrightarrow> preserves P m"
  unfolding flag_pred_def keeps_def preserves_def hoare_def by blast

lemma preserves_return: "preserves P (return a)"
  by (simp add: preserves_def hoare_return)

lemma preserves_gets: "preserves P (gets f)"
  by (simp add: preserves_def hoare_gets)

lemma preserves_require: "preserves P (require G)"
  by (simp add: preserves_def hoare_require)

lemma preserves_modify: "(\<And>s. P s \<Longrightarrow> P (f s)) \<Longrightarrow> preserves P (modify f)"
  by (simp add: preserves_def hoare_modify)

lemma preserves_seq: "preserves P m \<Longrightarrow> (\<And>a. preserves P (k a)) \<Longrightarrow> preserves P (seq m k)"
  unfolding preserves_def by (rule hoare_seq)

lemma preserves_if: "preserves P a \<Longrightarrow> preserves P b \<Longrightarrow> preserves P (if c then a else b)"
  by simp

lemma preserves_RETURN_IF_ERROR:
  "preserves P m \<Longrightarrow> preserves P k \<Longrightarrow> preserves P (RETURN_IF_ERROR m k)"
  unfolding RETURN_IF_ERROR_def by (intro preserves_seq preserves_if preserves_return)

lemma preserves_ext: "flag_pred P \<Longrightarrow> preserves P (ext w c)"
  by (rule preserves_of_keeps) (simp_all add: keeps_ext unaffected_flags)

lemma preserves_jni: "flag_pred P \<Longrightarrow> preserves P (jni w c)"
  by (rule preserves_of_keeps) (simp_all add: keeps_jni unaffected_flags)

lemma preserves_ext_status: "flag_pred P \<Longrightarrow> preserves P (ext_status w c)"
  by (rule preserves_of_keeps) (simp_all add: keeps_ext_status unaffected_flags)

lemma preserves_GetJniExceptionMsg: "flag_pred P \<Longrightarrow> preserves P GetJniExceptionMsg"
  by (rule preserves_of_keeps) (simp_all add: keeps_GetJniExceptionMsg unaffected_flags)

lemma preserves_CallNonvirtualMethod:
  "flag_pred P \<Longrightarrow> preserves P (CallNonvirtualMethod w m args)"
  by (rule preserves_of_keeps) (simp_all add: keeps_CallNonvirtualMethod unaffected_flags)

lemma preserves_RETURN_ERROR_IF_EXC:
  "flag_pred P \<Longrightarrow> preserves P k \<Longrightarrow> preserves P (RETURN_ERROR_IF_EXC k)"
  unfolding RETURN_ERROR_IF_EXC_def
  by (intro preserves_seq preserves_gets preserves_if preserves_GetJniExceptionMsg)

lemmas preserves_intros =
  preserves_return preserves_gets preserves_require preserves_seq preserves_if
  preserves_RETURN_IF_ERROR preserves_ext preserves_jni preserves_ext_status
  preserves_GetJniExceptionMsg preserves_CallNonvirtualMethod preserves_RETURN_ERROR_IF_EXC



lemma flag_pred_is_open: "flag_pred is_open"
  by (auto simp add: flag_pred_def flags_def)










lemma keeps_is_open_begin_trans: "preserves is_open (begin_trans w)"
  unfolding begin_trans_def
  by (intro preserves_intros preserves_modify flag_pred_is_open) simp





lemma hoare_Let: "(\<And>x. hoare P (g x) Q) \<Longrightarrow> hoare P (Let v g) Q"
  by (simp add: Let_def)





subsection \<open>A successful open leaves the connector open\<close>

lemma hoare_RIE_ok:
  "hoare (\<lambda>s. True) k (\<lambda>st s. st = OK \<longrightarrow> Q s) \<Longrightarrow>
   hoare (\<lambda>s. True) (RETURN_IF_ERROR m k) (\<lambda>st s. st = OK \<longrightarrow> Q s)"
  by (rule hoare_RETURN_IF_ERROR [where R = "\<lambda>_ _. True"]) (simp_all add: hoare_def)

lemma hoare_seq_top:
  "(\<And>a. hoare (\<lambda>s. True) (k a) Q) \<Longrightarrow> hoare (\<lambda>s. True) (seq m k) Q"
  by (rule hoare_seq [where R = "\<lambda>_ _. True"]) (simp_all add: hoare_def)

lemma hoare_RETURN_ERROR_IF_EXC_ok:
  "hoare (\<lambda>s. True) k (\<lambda>st s. st = OK \<longrightarrow> Q s) \<Longrightarrow>
   hoare (\<lambda>s. True) (RETURN_ERROR_IF_EXC k) (\<lambda>st s. st = OK \<longrightarrow> Q s)"
  by (auto simp add: RETURN_ERROR_IF_EXC_def GetJniExceptionMsg_def exec_defs hoare_def
      split: option.splits if_splits)

lemma hoare_with_pushed_frame_ok:
  "hoare (\<lambda>s. True) body (\<lambda>st s. st = OK \<longrightarrow> is_open s) \<Longrightarrow>
   hoare (\<lambda>s. True) (with_pushed_frame w body) (\<lambda>st s. st = OK \<longrightarrow> is_open s)"
  by (auto simp add: with_pushed_frame_def exec_defs ext_def hoare_def split: option.splits)

lemma open_tail_ok:
  "hoare (\<lambda>s. True)
     (RETURN_IF_ERROR (LocalToGlobalRef_var w executor_obj)
        (seq (modify (\<lambda>s. s\<lparr>is_open := True\<rparr>))
           (\<lambda>_. RETURN_IF_ERROR (begin_trans w) (return OK))))
     (\<lambda>st s. st = OK \<longrightarrow> is_open s)"
proof (rule hoare_RIE_ok)
  have "preserves is_open (RETURN_IF_ERROR (begin_trans w) (return OK))"
    by (intro preserves_RETURN_IF_ERROR keeps_is_open_begin_trans preserves_return)
  then have "hoare is_open (RETURN_IF_ERROR (begin_trans w) (return OK))
               (\<lambda>st s. st = OK \<longrightarrow> is_open s)"
    unfolding preserves_def by (rule hoare_weaken) simp_all
  then show "hoare (\<lambda>s. True) (seq (modify (\<lambda>s. s\<lparr>is_open := True\<rparr>))
           (\<lambda>_. RETURN_IF_ERROR (begin_trans w) (return OK))) (\<lambda>st s. st = OK \<longrightarrow> is_open s)"
    by (intro hoare_seq [where R = "\<lambda>_. is_open"] hoare_modify) simp_all
qed

lemma open_ok_is_open:
  assumes "open_connector w bs read s = Some (OK, s1)"
  shows "is_open s1"
proof -
  have "hoare (\<lambda>s. True) (open_connector w bs read) (\<lambda>st s. st = OK \<longrightarrow> is_open s)"
    unfolding open_connector_def
    apply (rule hoare_seq [where R = "\<lambda>opened s. is_open s = opened"])
     apply (rule hoare_gets, simp)
    apply (rule hoare_if)
     apply (rule hoare_return, simp)
    apply (rule hoare_weaken [where P' = "\<lambda>s. True" and Q' = "\<lambda>st s. st = OK \<longrightarrow> is_open s"])
      apply (intro open_tail_ok hoare_RIE_ok hoare_seq_top hoare_if hoare_Let
        hoare_with_pushed_frame_ok hoare_RETURN_ERROR_IF_EXC_ok)
      apply (rule hoare_return, simp)
     apply simp_all
    done
  from hoareD [OF this _ assms] show ?thesis by simp
qed

subsection \<open>The invariant along every sequence of operations\<close>



lemma state_afterD: "state_after m s = Some s' \<Longrightarrow> \<exists>r. m s = Some (r, s')"
  by (auto simp add: state_after_def)




subsection \<open>Evaluating the example configurations\<close>

lemma all_refs_global:
  "(\<lambda>v. Unset)
     (executor_clazz := GlobalRef, executor_list_clazz := GlobalRef,
      executor_object_clazz := GlobalRef, executor_string_clazz := GlobalRef,
      executor_obj := GlobalRef) = (\<lambda>v. GlobalRef)"
  by (rule ext) (case_tac v; simp)

lemma all_func_ids_valid:
  "(\<lambda>m. False)
     (executor_ctor_id := True, executor_stmt_write_id := True,
      executor_read_id := True, executor_close_id := True,
      executor_has_next_id := True, executor_get_block_address_id := True,
      executor_block_rows_id := True, executor_get_list_id := True,
      get_bytes_id := True, to_string_id := True,
      executor_begin_trans_id := True, executor_finish_trans_id := True,
      executor_abort_trans_id := True, executor_get_types_id := True) = (\<lambda>m. True)"
  by (rule ext) (case_tac m; simp)

lemma all_refs_freed:
  "(\<lambda>v. GlobalRef)
     (executor_clazz := Freed, executor_object_clazz := Freed,
      executor_string_clazz := Freed, executor_list_clazz := Freed,
      executor_obj := Freed) = (\<lambda>v. Freed)"
  by (rule ext) (case_tac v; simp)

lemma const_fun_upd: "(\<lambda>v. c)(x := c) = (\<lambda>v. c)"
  by auto

lemma open_quiet:
  assumes q: "\<And>log c. (\<forall>m args. c = CallMethod m args \<longrightarrow> m = executor_begin_trans_id)
                \<Longrightarrow> w log c = quiet"
  shows "open_connector w 4096 True (JdbcConnector_ctor (example_param tbl transactional)) =
           Some (OK, example_opened tbl transactional)"
  by (simp add: open_connector_def register_func_id_def begin_trans_def prim_defs exec_defs
      JdbcConnector_ctor_def example_param_def q quiet_def example_opened_def open_calls_def
      all_refs_global all_func_ids_valid const_fun_upd)

lemma open_has_next_raises:
  "open_connector has_next_raises 4096 True (JdbcConnector_ctor (example_param tbl tr)) =
     Some (OK, example_opened tbl tr)"
  by (rule open_quiet) (auto simp add: has_next_raises_def split: ext_call.splits)

lemma open_example_world:
  "open_connector example_world 4096 True (JdbcConnector_ctor (example_param tbl tr)) =
     Some (OK, example_opened tbl tr)"
  by (rule open_quiet) (auto simp add: example_world_def split: ext_call.splits)

lemma query_example_world:
  "query example_world (example_opened (OTHER_TABLE_TYPE 0) False) = Some (OK, example_queried)"
  by (simp add: query_def check_column_type_def jobject_to_string_def check_type_def
      record_cast_plan_def returned_null_def map_subscript_def vector_at_def
      prim_defs exec_defs example_opened_def open_calls_def JdbcConnector_ctor_def
      example_param_def example_world_def quiet_def example_slots_def Let_def
      example_queried_def query_calls_def numeral_3_eq_3)

lemmas example_state_defs = example_opened_def JdbcConnector_ctor_def example_param_def

lemmas eval_defs =
  get_reader_params_def replace_type_of_def
  exec_defs prim_defs example_queried_def example_opened_def JdbcConnector_ctor_def example_param_def
  example_slots_def example_block_def Let_def get_by_position_def set_by_position_def
  is_bitmap_type_def is_hll_type_def is_json_type_def get_data_type_ptr_def create_data_type_def
  make_nullable_column_def example_world_def quiet_def

subsection \<open>The connection-state invariant\<close>



subsection \<open>Opening and closing again\<close>

text \<open>
  What repeating \<open>open()\<close> and \<open>close()\<close> leaves unchanged: \<open>open()\<close> on a connector that is
  open, and so every \<open>open()\<close> after one that succeeded, returns success and changes
  nothing, with no foreign or reference operation; \<open>close()\<close> on a connector that was never
  open returns success, sets only the closed flag, makes no foreign or reference
  operation, and a further \<open>close()\<close> changes nothing.
\<close>

lemma open_and_close_when_settled:
  "(is_open s \<longrightarrow> open_connector w bs read s = Some (OK, s)) \<and>
   (open_connector w bs read s = Some (OK, s1) \<longrightarrow>
      open_connector w bs' read' s1 = Some (OK, s1)) \<and>
   (\<not> is_open s \<longrightarrow>
      close w s = Some (OK, s\<lparr>closed := True\<rparr>) \<and>
      close w (s\<lparr>closed := True\<rparr>) = Some (OK, s\<lparr>closed := True\<rparr>))"
proof (intro conjI impI)
  show "is_open s \<Longrightarrow> open_connector w bs read s = Some (OK, s)"
    by (simp add: open_connector_def exec_defs)
  show "open_connector w bs read s = Some (OK, s1) \<Longrightarrow>
      open_connector w bs' read' s1 = Some (OK, s1)"
    using open_ok_is_open [of w bs read s s1] by (simp add: open_connector_def exec_defs)
  show "\<not> is_open s \<Longrightarrow> close w s = Some (OK, s\<lparr>closed := True\<rparr>)"
    by (simp add: close_def exec_defs)
  show "\<not> is_open s \<Longrightarrow> close w (s\<lparr>closed := True\<rparr>) = Some (OK, s\<lparr>closed := True\<rparr>)"
    by (simp add: close_def exec_defs)
qed

lemma open_and_close_when_settled_example:
  "open_connector example_world 0 False (example_opened NEBULA True) =
     Some (OK, example_opened NEBULA True) \<and>
   open_connector no_jni_env 1024 True (example_opened NEBULA True) =
     Some (OK, example_opened NEBULA True) \<and>
   close example_world (JdbcConnector_ctor (example_param NEBULA True)) =
     Some (OK, (JdbcConnector_ctor (example_param NEBULA True))\<lparr>closed := True\<rparr>) \<and>
   close example_world ((JdbcConnector_ctor (example_param NEBULA True))\<lparr>closed := True\<rparr>) =
     Some (OK, (JdbcConnector_ctor (example_param NEBULA True))\<lparr>closed := True\<rparr>)"
proof -
  have o: "open_connector example_world 4096 True (JdbcConnector_ctor (example_param NEBULA True)) =
     Some (OK, example_opened NEBULA True)"
    by (rule open_example_world)
  have c: "\<not> is_open (JdbcConnector_ctor (example_param NEBULA True))"
    by (simp add: JdbcConnector_ctor_def)
  have i: "is_open (example_opened NEBULA True)"
    by (simp add: example_opened_def)
  from open_and_close_when_settled
         [of "JdbcConnector_ctor (example_param NEBULA True)" example_world 4096 True
             "example_opened NEBULA True" 0 False]
       open_and_close_when_settled [of "example_opened NEBULA True" no_jni_env 1024 True]
       o c i
  show ?thesis by blast
qed

text \<open>
  C4. \<open>close()\<close> sets the closed flag, which the destructor tests, but its own guard tests
  the open flag only, and \<open>close()\<close> never clears that flag. So after \<open>open()\<close> and \<open>close()\<close>
  the connector is both closed and open, and a second \<open>close()\<close> does not return early: it
  runs the teardown again. It asks for the environment and deletes the class references
  that the first \<open>close()\<close> deleted, which has no defined outcome; and where the environment
  can no longer be obtained, it returns that error instead of success.
\<close>

theorem close_twice_reruns_teardown:
  "open_connector example_world 4096 True
     (JdbcConnector_ctor (example_param (OTHER_TABLE_TYPE 0) False)) =
     Some (OK, example_opened (OTHER_TABLE_TYPE 0) False) \<and>
   close example_world (example_opened (OTHER_TABLE_TYPE 0) False) =
     Some (OK, example_closed) \<and>
   closed example_closed \<and>
   is_open example_closed \<and>
   close example_world example_closed = None \<and>
   open_connector jni_env_lost_after_close 4096 True
     (JdbcConnector_ctor (example_param (OTHER_TABLE_TYPE 0) False)) =
     Some (OK, example_opened (OTHER_TABLE_TYPE 0) False) \<and>
   close jni_env_lost_after_close (example_opened (OTHER_TABLE_TYPE 0) False) =
     Some (OK, example_closed) \<and>
   close jni_env_lost_after_close example_closed =
     Some (InternalError ''Failed to get JNIEnv'',
           example_closed\<lparr>calls := calls example_closed @ [GetJNIEnv]\<rparr>)"
proof (intro conjI)
  show "open_connector example_world 4096 True
     (JdbcConnector_ctor (example_param (OTHER_TABLE_TYPE 0) False)) =
     Some (OK, example_opened (OTHER_TABLE_TYPE 0) False)"
    by (rule open_example_world)
  show "close example_world (example_opened (OTHER_TABLE_TYPE 0) False) =
     Some (OK, example_closed)"
    by (simp add: close_def exec_defs prim_defs example_opened_def JdbcConnector_ctor_def
        example_closed_def example_world_def quiet_def all_refs_freed)
  show "closed example_closed"
    by (simp add: example_closed_def)
  show "is_open example_closed"
    by (simp add: example_closed_def example_opened_def)
  show "close example_world example_closed = None"
    by (simp add: close_def exec_defs prim_defs example_opened_def JdbcConnector_ctor_def
        example_closed_def example_world_def quiet_def)
  show "open_connector jni_env_lost_after_close 4096 True
     (JdbcConnector_ctor (example_param (OTHER_TABLE_TYPE 0) False)) =
     Some (OK, example_opened (OTHER_TABLE_TYPE 0) False)"
    by (simp add: open_connector_def register_func_id_def begin_trans_def prim_defs exec_defs
        JdbcConnector_ctor_def example_param_def jni_env_lost_after_close_def quiet_def
        example_opened_def open_calls_def all_refs_global all_func_ids_valid const_fun_upd)
  show "close jni_env_lost_after_close (example_opened (OTHER_TABLE_TYPE 0) False) =
     Some (OK, example_closed)"
    by (simp add: close_def exec_defs prim_defs example_opened_def JdbcConnector_ctor_def
        example_closed_def jni_env_lost_after_close_def quiet_def all_refs_freed open_calls_def)
  show "close jni_env_lost_after_close example_closed =
     Some (InternalError ''Failed to get JNIEnv'',
           example_closed\<lparr>calls := calls example_closed @ [GetJNIEnv]\<rparr>)"
    by (simp add: close_def exec_defs prim_defs example_opened_def JdbcConnector_ctor_def
        example_closed_def jni_env_lost_after_close_def quiet_def)
qed

subsection \<open>Querying\<close>

lemma materialize_count_eq:
  "materialize_count xs n = n + int (length (filter is_materialized xs))"
  by (induction xs arbitrary: n) auto

text \<open>
  C6. On an open connector whose foreign \<open>read\<close> call succeeds, \<open>query()\<close> fails with the
  error "input and output column num not equal of jdbc query." whenever the column count
  the call returns differs from the number of materialized slots. The only foreign calls
  made are the request for the environment and \<open>read\<close> itself: the failure comes before
  the type validation (no \<open>getResultColumnTypeNames\<close> call) and before any row is
  fetched.
\<close>

theorem query_schema_drift:
  assumes "is_open s"
    and "live (refs s executor_obj)"
    and "func_ids s executor_read_id"
    and "r_status (w (calls s) GetJNIEnv) = OK"
    and "pending s = None"
    and "r_exc (w (calls s @ [GetJNIEnv]) (CallMethod executor_read_id [])) = None"
    and "r_int (w (calls s @ [GetJNIEnv]) (CallMethod executor_read_id [])) \<noteq>
           int (length (filter is_materialized (slots s)))"
  shows "query w s =
           Some (InternalError ''input and output column num not equal of jdbc query.'',
                 s\<lparr>calls := calls s @ [GetJNIEnv, CallMethod executor_read_id []]\<rparr>)"
  using assms
  by (simp add: query_def exec_defs prim_defs materialize_count_eq Let_def)

theorem query_schema_drift_witness:
  "query (read_returns 2) (example_opened (OTHER_TABLE_TYPE 0) False) =
     Some (InternalError ''input and output column num not equal of jdbc query.'',
           (example_opened (OTHER_TABLE_TYPE 0) False)
             \<lparr>calls := calls (example_opened (OTHER_TABLE_TYPE 0) False) @
                         [GetJNIEnv, CallMethod executor_read_id []]\<rparr>)"
  by (rule query_schema_drift)
     (simp_all add: example_state_defs live_def read_returns_def quiet_def example_slots_def)

text \<open>
  For a table type other than \<open>NEBULA\<close> the reported type names are validated: the same
  foreign side that reports \<open>java.lang.Object\<close> for every column makes \<open>query()\<close> fail.
\<close>

lemma query_validates_other_tables:
  "\<exists>s'. query reports_objects (example_opened (OTHER_TABLE_TYPE 0) False) =
     Some (InternalError
            (''Fail to convert jdbc type of java.lang.Object to doris type INT on column: k1'' @
             ''. You need to check this column type between external table and doris table.''),
           s')"
  by (simp add: query_def check_column_type_def jobject_to_string_def check_type_def
      returned_null_def error_msg_def
      prim_defs exec_defs example_state_defs
      reports_objects_def quiet_def example_slots_def Let_def)

text \<open>
  C8. When the configured table type is \<open>NEBULA\<close>, \<open>query()\<close> validates no column type: on
  an open connector, a foreign \<open>read\<close> that succeeds with the number of materialized slots
  as its column count makes \<open>query()\<close> succeed, whatever the foreign side would report as
  type names, and the type names are never asked for.
\<close>

theorem query_nebula:
  assumes "is_open s" and "table_type (conn_param s) = NEBULA"
    and "live (refs s executor_obj)"
    and "func_ids s executor_read_id"
    and "r_status (w (calls s) GetJNIEnv) = OK"
    and "pending s = None"
    and "r_exc (w (calls s @ [GetJNIEnv]) (CallMethod executor_read_id [])) = None"
    and "r_int (w (calls s @ [GetJNIEnv]) (CallMethod executor_read_id [])) =
           int (length (filter is_materialized (slots s)))"
  shows "query w s =
           Some (OK, s\<lparr>calls := calls s @ [GetJNIEnv, CallMethod executor_read_id []]\<rparr>)"
  using assms
  by (simp add: query_def exec_defs prim_defs materialize_count_eq Let_def)

theorem query_nebula_witness:
  "query reports_objects (example_opened NEBULA False) =
     Some (OK, (example_opened NEBULA False)
             \<lparr>calls := calls (example_opened NEBULA False) @
                         [GetJNIEnv, CallMethod executor_read_id []]\<rparr>)"
  by (rule query_nebula)
     (simp_all add: example_state_defs live_def reports_objects_def quiet_def example_slots_def)

subsection \<open>The end of the stream\<close>

text \<open>
  C3. \<open>get_next()\<close> tests the result of \<open>hasNext\<close> before it looks for a pending exception.
  When the \<open>hasNext\<close> call raises, the call returns \<open>JNI_FALSE\<close>, and \<open>get_next()\<close> on the
  opened connector reports the end of the stream with status \<open>OK\<close>; the exception is left
  pending and is not surfaced to the caller.
\<close>

theorem get_next_swallows_has_next_exception:
  "open_connector has_next_raises 4096 True
     (JdbcConnector_ctor (example_param (OTHER_TABLE_TYPE 0) False)) =
     Some (OK, example_opened (OTHER_TABLE_TYPE 0) False) \<and>
   get_next has_next_raises False example_block 4096 (example_opened (OTHER_TABLE_TYPE 0) False) =
     Some ((OK, True, example_block),
           (example_opened (OTHER_TABLE_TYPE 0) False)
             \<lparr>pending := Some ''java.sql.SQLException: connection reset'',
              calls := open_calls (OTHER_TABLE_TYPE 0) False @
                       [GetJNIEnv, CallMethod executor_has_next_id []]\<rparr>)"
  by (simp add: open_has_next_raises)
     (simp add: get_next_def exec_defs prim_defs example_opened_def JdbcConnector_ctor_def
      has_next_raises_def quiet_def)

subsection \<open>The reader parameters\<close>

lemma entries_separated_Cons:
  "entries_separated [ch] (e # es) = e @ concat (map ((#) ch) es)"
  by (induction es arbitrary: e) auto

lemma get_reader_params_loop_streams:
  "get_reader_params_loop sl i (a, b, c, d) block = Some ((a', b', c', d'), block') \<Longrightarrow>
   a' = a @ entries_terminated '','' (map (\<lambda>slot. if is_nullable slot then ''true'' else ''false'')
                                      (filter is_materialized sl)) \<and>
   b' = b @ entries_terminated '','' (map (\<lambda>slot. replace_type_of (slot_type slot))
                                      (filter is_materialized sl)) \<and>
   c' = c @ (if i = 0 then entries_separated '','' (map col_name sl)
             else concat (map ((#) CHR '','') (map col_name sl))) \<and>
   d' = d @ (if i = 0
             then entries_separated ''#''
                    (map (\<lambda>slot. if is_bitmap_type (slot_type slot) \<or> is_hll_type (slot_type slot) \<or>
                                     is_json_type (slot_type slot)
                                  then ''string'' else jni_type (slot_type slot)) sl)
             else concat (map ((#) CHR ''#'')
                    (map (\<lambda>slot. if is_bitmap_type (slot_type slot) \<or> is_hll_type (slot_type slot) \<or>
                                     is_json_type (slot_type slot)
                                  then ''string'' else jni_type (slot_type slot)) sl)))"
proof (induction sl arbitrary: i a b c d block)
  case Nil
  then show ?case by (simp add: entries_terminated_def)
next
  case (Cons slot rest)
  from Cons.prems obtain a1 b1 block1 where
    head: "a1 = (if is_materialized slot
                 then a @ (if is_nullable slot then ''true'' else ''false'') @ '','' else a)"
          "b1 = (if is_materialized slot
                 then b @ replace_type_of (slot_type slot) @ '','' else b)"
    and rest: "get_reader_params_loop rest (Suc i)
                 (a1, b1, c @ (if i \<noteq> 0 then '','' else []) @ col_name slot,
                  d @ (if i \<noteq> 0 then ''#'' else []) @
                    (if is_bitmap_type (slot_type slot) \<or> is_hll_type (slot_type slot) \<or>
                        is_json_type (slot_type slot)
                     then ''string'' else jni_type (slot_type slot))) block1 =
               Some ((a', b', c', d'), block')"
    by (auto simp add: Let_def split: if_splits option.splits)
  from Cons.IH [OF rest] head show ?case
    by (auto simp add: entries_terminated_def entries_separated_Cons)
qed

lemma get_reader_params_result:
  assumes "get_reader_params w block column_size s = Some ((params, block'), s')"
  shows "\<exists>a b c d. get_reader_params_loop (take column_size (slots s)) 0 ([], [], [], []) block =
             Some ((a, b, c, d), block') \<and>
           params = [(''is_nullable'', a), (''replace_string'', b), (''required_fields'', c),
                     (''columns_types'', d)]"
  using assms
  by (auto simp add: get_reader_params_def exec_defs ext_def Let_def
      split: if_splits option.splits prod.splits)

lemma reader_params_example:
  "\<exists>params block' s'.
     get_reader_params example_world example_block (length (slots example_queried)) example_queried =
       Some ((params, block'), s')"
  by (simp add: eval_defs numeral_eq_Suc)

text \<open>
  C10. The reader parameters built for \<open>getBlockAddress\<close>: the \<open>is_nullable\<close> and
  \<open>replace_string\<close> texts hold one entry (each followed by a comma) per materialized slot
  only, while \<open>required_fields\<close> and \<open>columns_types\<close> hold one entry (separated by \<open>,\<close> and
  \<open>#\<close>) per slot of the schema, materialized or not. Hence, when the schema has a slot
  that is not materialized, the first two lists have fewer entries than the last two.
\<close>

theorem reader_params_entries:
  assumes "get_reader_params w block (length (slots s)) s = Some ((params, block'), s')"
  shows "params =
           [(''is_nullable'',
             entries_terminated '',''
               (map (\<lambda>slot. if is_nullable slot then ''true'' else ''false'')
                    (filter is_materialized (slots s)))),
            (''replace_string'',
             entries_terminated '',''
               (map (\<lambda>slot. replace_type_of (slot_type slot))
                    (filter is_materialized (slots s)))),
            (''required_fields'', entries_separated '','' (map col_name (slots s))),
            (''columns_types'',
             entries_separated ''#''
               (map (\<lambda>slot. if is_bitmap_type (slot_type slot) \<or> is_hll_type (slot_type slot) \<or>
                                is_json_type (slot_type slot)
                             then ''string'' else jni_type (slot_type slot))
                    (slots s)))] \<and>
         ((\<exists>slot \<in> set (slots s). \<not> is_materialized slot) \<longrightarrow>
            length (filter is_materialized (slots s)) < length (slots s))"
proof -
  from get_reader_params_result [OF assms] obtain a b c d where
    loop: "get_reader_params_loop (slots s) 0 ([], [], [], []) block = Some ((a, b, c, d), block')"
    and params: "params = [(''is_nullable'', a), (''replace_string'', b),
                           (''required_fields'', c), (''columns_types'', d)]"
    by auto
  from get_reader_params_loop_streams [OF loop] params
  have "params =
           [(''is_nullable'',
             entries_terminated '',''
               (map (\<lambda>slot. if is_nullable slot then ''true'' else ''false'')
                    (filter is_materialized (slots s)))),
            (''replace_string'',
             entries_terminated '',''
               (map (\<lambda>slot. replace_type_of (slot_type slot))
                    (filter is_materialized (slots s)))),
            (''required_fields'', entries_separated '','' (map col_name (slots s))),
            (''columns_types'',
             entries_separated ''#''
               (map (\<lambda>slot. if is_bitmap_type (slot_type slot) \<or> is_hll_type (slot_type slot) \<or>
                                is_json_type (slot_type slot)
                             then ''string'' else jni_type (slot_type slot))
                    (slots s)))]"
    by simp
  moreover have "(\<exists>slot \<in> set (slots s). \<not> is_materialized slot) \<longrightarrow>
            length (filter is_materialized (slots s)) < length (slots s)"
    by (auto simp add: length_filter_less)
  ultimately show ?thesis by blast
qed

theorem reader_params_entries_witness:
  "\<exists>block' s'.
     get_reader_params example_world example_block 4 example_queried =
       Some (([(''is_nullable'', ''false,false,true,''),
               (''replace_string'', ''not_replace,hll,jsonb,''),
               (''required_fields'', ''k1,h1,v1,j1''),
               (''columns_types'', ''int#string#double#string'')], block'), s')"
proof -
  have n: "length (slots example_queried) = 4"
    by (simp add: example_queried_def example_opened_def JdbcConnector_ctor_def example_param_def
        example_slots_def)
  from reader_params_example obtain params block' s' where
    r: "get_reader_params example_world example_block (length (slots example_queried))
          example_queried = Some ((params, block'), s')"
    by blast
  have "params = [(''is_nullable'', ''false,false,true,''),
               (''replace_string'', ''not_replace,hll,jsonb,''),
               (''required_fields'', ''k1,h1,v1,j1''),
               (''columns_types'', ''int#string#double#string'')]"
    using reader_params_entries [OF r]
    by (simp add: example_queried_def example_opened_def JdbcConnector_ctor_def example_param_def
        example_slots_def entries_terminated_def replace_type_of_def
        is_bitmap_type_def is_hll_type_def is_json_type_def)
  with r n show ?thesis by auto
qed

subsection \<open>The casts of the staged string columns\<close>

lemma dt_is_nullable_get_data_type_ptr:
  "dt_is_nullable (get_data_type_ptr slot) = is_nullable slot"
  by (simp add: get_data_type_ptr_def create_data_type_def)

lemma cast_string_to_result:
  assumes run: "cast_string_to gm sm gt cp w slot block i n s = Some ((OK, block'), s')"
    and sm_calls: "\<And>m x. calls (sm m x) = calls x"
    and sm_types: "\<And>m x. gt (sm m x) = gt x"
  shows "i < length block \<and>
         block' = block[i := (block ! i)
           \<lparr>data_type := get_data_type_ptr slot,
            column := Some
              (if is_nullable slot
               then ColumnNullable
                 (r_column (w (calls s) (CAST_execute (column (block ! i))
                    (gt s ! fst (map_subscript (gm s) i)) (get_data_type_ptr slot) cp n)))
                 (r_null_map (w (calls s) (CAST_execute (column (block ! i))
                    (gt s ! fst (map_subscript (gm s) i)) (get_data_type_ptr slot) cp n)))
               else r_column (w (calls s) (CAST_execute (column (block ! i))
                    (gt s ! fst (map_subscript (gm s) i)) (get_data_type_ptr slot) cp n)))\<rparr>]"
  using run
  by (auto simp add: cast_string_to_def exec_defs ext_def Let_def get_by_position_def
      vector_at_def dt_is_nullable_get_data_type_ptr sm_calls sm_types
      split: if_splits option.splits prod.splits)

lemmas cast_string_to_hll_result =
  cast_string_to_result [where gm = map_column_idx_to_cast_idx_hll
    and sm = "\<lambda>m s. s\<lparr>map_column_idx_to_cast_idx_hll := m\<rparr>"
    and gt = input_hll_string_types and cp = "[]", folded cast_string_to_hll_def, simplified]

lemmas cast_string_to_bitmap_result =
  cast_string_to_result [where gm = map_column_idx_to_cast_idx_bitmap
    and sm = "\<lambda>m s. s\<lparr>map_column_idx_to_cast_idx_bitmap := m\<rparr>"
    and gt = input_bitmap_string_types and cp = "[]", folded cast_string_to_bitmap_def,
    simplified]

lemmas cast_string_to_json_result =
  cast_string_to_result [where gm = map_column_idx_to_cast_idx_json
    and sm = "\<lambda>m s. s\<lparr>map_column_idx_to_cast_idx_json := m\<rparr>"
    and gt = input_json_string_types and cp = "''{}''", folded cast_string_to_json_def,
    simplified]

lemma seq_SomeD:
  "seq m k s = Some (r, s') \<Longrightarrow> \<exists>a s1. m s = Some (a, s1) \<and> k a s1 = Some (r, s')"
  by (auto simp add: seq_def split: option.splits)

lemma cast_step_result:
  assumes "(if is_hll_type (slot_type slot) then cast_string_to_hll w slot block ci n
            else if is_json_type (slot_type slot) then cast_string_to_json w slot block ci n
            else if is_bitmap_type (slot_type slot) then cast_string_to_bitmap w slot block ci n
            else return (OK, block)) s = Some ((OK, block1), s1)"
  shows "length block1 = length block \<and> (\<forall>k. k \<noteq> ci \<longrightarrow> block1 ! k = block ! k) \<and>
         (semi_structured slot \<longrightarrow> ci < length block \<and>
            data_type (block1 ! ci) = get_data_type_ptr slot \<and>
            (\<exists>log input input_type cast_param m.
               column (block1 ! ci) =
                 Some (cast_result_column
                         (w log (CAST_execute input input_type (get_data_type_ptr slot)
                                   cast_param m))
                         (is_nullable slot))))"
proof (cases "semi_structured slot")
  case False
  with assms show ?thesis
    by (auto simp add: semi_structured_def is_hll_type_def is_json_type_def is_bitmap_type_def
        return_def)
next
  case True
  with assms have "ci < length block \<and>
     (\<exists>log input input_type cast_param m. block1 = block[ci := (block ! ci)
           \<lparr>data_type := get_data_type_ptr slot,
            column := Some (cast_result_column
                         (w log (CAST_execute input input_type (get_data_type_ptr slot)
                                   cast_param m))
                         (is_nullable slot))\<rparr>])"
    using cast_string_to_hll_result [of w slot block ci n s block1 s1]
      cast_string_to_json_result [of w slot block ci n s block1 s1]
      cast_string_to_bitmap_result [of w slot block ci n s block1 s1]
    unfolding cast_result_column_def
    by (simp add: semi_structured_def is_hll_type_def is_json_type_def is_bitmap_type_def
        split: if_splits) blast+
  then show ?thesis by (auto, blast)
qed

lemma cast_string_to_special_loop_types:
  "cast_string_to_special_loop w sl ci block s = Some ((OK, block'), s') \<Longrightarrow>
   length block' = length block \<and>
   (\<forall>k < ci. block' ! k = block ! k) \<and>
   (\<forall>j < length sl. is_materialized (sl ! j) \<longrightarrow> semi_structured (sl ! j) \<longrightarrow>
      ci + j < length block \<and> data_type (block' ! (ci + j)) = get_data_type_ptr (sl ! j) \<and>
      (\<exists>log input input_type cast_param m.
         column (block' ! (ci + j)) =
           Some (cast_result_column
                   (w log (CAST_execute input input_type (get_data_type_ptr (sl ! j))
                             cast_param m))
                   (is_nullable (sl ! j)))))"
proof (induction sl arbitrary: ci block s)
  case Nil
  then show ?case by (simp add: return_def)
next
  case (Cons slot rest)
  show ?case
  proof (cases "is_materialized slot")
    case False
    with Cons.prems have "cast_string_to_special_loop w rest (Suc ci) block s = Some ((OK, block'), s')"
      by simp
    from Cons.IH [OF this] False show ?thesis
      by (auto simp add: nth_Cons split: nat.splits)
  next
    case True
    with Cons.prems obtain n block1 s1 s2 where
      step: "(if is_hll_type (slot_type slot) then cast_string_to_hll w slot block ci n
            else if is_json_type (slot_type slot) then cast_string_to_json w slot block ci n
            else if is_bitmap_type (slot_type slot) then cast_string_to_bitmap w slot block ci n
            else return (OK, block)) s1 = Some ((OK, block1), s2)"
      and rest: "cast_string_to_special_loop w rest (Suc ci) block1 s2 = Some ((OK, block'), s')"
      by (auto simp add: RETURN_IF_ERROR_OUT_def return_def dest!: seq_SomeD
          split: if_splits prod.splits)
    note st = cast_step_result [OF step]
    note ih = Cons.IH [OF rest]
    from st ih have len: "length block' = length block" by simp
    from st ih have low: "\<forall>k < ci. block' ! k = block ! k" by simp
    from ih have here: "block' ! ci = block1 ! ci" by simp
    have "is_materialized ((slot # rest) ! j) \<longrightarrow> semi_structured ((slot # rest) ! j) \<longrightarrow>
      ci + j < length block \<and>
      data_type (block' ! (ci + j)) = get_data_type_ptr ((slot # rest) ! j) \<and>
      (\<exists>log input input_type cast_param m.
         column (block' ! (ci + j)) =
           Some (cast_result_column
                   (w log (CAST_execute input input_type (get_data_type_ptr ((slot # rest) ! j))
                             cast_param m))
                   (is_nullable ((slot # rest) ! j))))"
      if j: "j < length (slot # rest)" for j
    proof (cases j)
      case 0
      with st here show ?thesis by simp
    next
      case (Suc j')
      with j have "j' < length rest" by simp
      with ih st Suc show ?thesis by simp
    qed
    with len low show ?thesis by blast
  qed
qed

lemma get_next_steps:
  assumes "get_next w False block bs s = Some ((OK, False, block'), s')"
  shows "\<exists>sa hn sb sc mp b1 sd addr se sf u sg b2 sh si.
           ext_status w GetJNIEnv s = Some (OK, sa) \<and>
           CallNonvirtualMethod w executor_has_next_id [] sa = Some (hn, sb) \<and>
           GetJniExceptionMsg sb = Some (OK, sc) \<and>
           get_reader_params w block (length (slots sc)) sc = Some ((mp, b1), sd) \<and>
           CallExecutorMethod w executor_get_block_address_id [JInt bs, JMap mp] sd =
             Some (addr, se) \<and>
           GetJniExceptionMsg se = Some (OK, sf) \<and>
           ext w DeleteLocalRef sf = Some (u, sg) \<and>
           JniConnector_fill_block w b1 [0..<length (slots sc)] (r_int addr) sg =
             Some ((OK, b2), sh) \<and>
           cast_string_to_special w b2 (length (slots sc)) sh = Some ((OK, block'), si)"
  using assms
  by (auto simp add: get_next_def RETURN_IF_ERROR_OUT_def gets_def return_def
      dest!: seq_SomeD split: if_splits prod.splits)

lemma get_next_types:
  assumes run: "get_next w False block bs s = Some ((OK, False, block'), s')"
    and i: "i < length (slots s)"
    and mat: "is_materialized (slots s ! i)"
    and sp: "semi_structured (slots s ! i)"
  shows "i < length block' \<and> data_type (block' ! i) = get_data_type_ptr (slots s ! i) \<and>
         (\<exists>log input input_type cast_param m.
            column (block' ! i) =
              Some (cast_result_column
                      (w log (CAST_execute input input_type (get_data_type_ptr (slots s ! i))
                                cast_param m))
                      (is_nullable (slots s ! i))))"
proof -
  from get_next_steps [OF run] obtain sa hn sb sc mp b1 sd addr se sf u sg b2 sh si where
    1: "ext_status w GetJNIEnv s = Some (OK, sa)" and
    2: "CallNonvirtualMethod w executor_has_next_id [] sa = Some (hn, sb)" and
    3: "GetJniExceptionMsg sb = Some (OK, sc)" and
    4: "get_reader_params w block (length (slots sc)) sc = Some ((mp, b1), sd)" and
    5: "CallExecutorMethod w executor_get_block_address_id [JInt bs, JMap mp] sd =
             Some (addr, se)" and
    6: "GetJniExceptionMsg se = Some (OK, sf)" and
    7: "ext w DeleteLocalRef sf = Some (u, sg)" and
    8: "JniConnector_fill_block w b1 [0..<length (slots sc)] (r_int addr) sg =
             Some ((OK, b2), sh)" and
    9: "cast_string_to_special w b2 (length (slots sc)) sh = Some ((OK, block'), si)"
    by blast
  note k = unaffected_slots
  have "slots sh = slots s"
    using keepsD [OF keeps_ext_status [OF k] 1]
      keepsD [OF keeps_CallNonvirtualMethod [OF k] 2]
      keepsD [OF keeps_GetJniExceptionMsg [OF k] 3]
      keepsD [OF keeps_get_reader_params [OF k] 4]
      keepsD [OF keeps_CallExecutorMethod [OF k] 5]
      keepsD [OF keeps_GetJniExceptionMsg [OF k] 6]
      keepsD [OF keeps_ext [OF k] 7]
      keepsD [OF keeps_JniConnector_fill_block [OF k] 8]
    by simp
  moreover have "slots sc = slots s"
    using keepsD [OF keeps_ext_status [OF k] 1]
      keepsD [OF keeps_CallNonvirtualMethod [OF k] 2]
      keepsD [OF keeps_GetJniExceptionMsg [OF k] 3]
    by simp
  ultimately have "cast_string_to_special_loop w (slots s) 0 b2 sh = Some ((OK, block'), si)"
    using 9 by (simp add: cast_string_to_special_def exec_defs)
  from cast_string_to_special_loop_types [OF this, THEN conjunct2, THEN conjunct2, rule_format,
      OF i mat sp]
    cast_string_to_special_loop_types [OF this, THEN conjunct1]
  show ?thesis
    by simp
qed

lemma semi_structured_not_staging:
  "semi_structured slot \<Longrightarrow>
     get_data_type_ptr slot \<notin> {DataTypeString, DataTypeNullable DataTypeString}"
  by (auto simp add: semi_structured_def get_data_type_ptr_def create_data_type_def)

lemma get_next_example:
  "\<exists>block' s'. get_next example_world False example_block 4096 example_queried =
      Some ((OK, False, block'), s')"
  by (simp add: get_next_def cast_string_to_special_def cast_string_to_hll_def
      cast_string_to_json_def cast_string_to_bitmap_def cast_string_to_def
      JniConnector_fill_block_def fill_block_columns_def map_subscript_def vector_at_def
      dt_is_nullable_get_data_type_ptr
      eval_defs numeral_eq_Suc upt_rec)

text \<open>
  C5. For every materialized semi-structured slot (\<open>HLL\<close>, bitmap, \<open>JSONB\<close>), after a
  \<open>get_next()\<close> that imported and cast a batch, the type of the column at the slot's
  position in the block is the declared type of the slot, not the staging string type,
  and the column is the result of a cast to the declared type: the nullable result
  column itself when the slot is nullable, and the nested column unwrapped from it when
  the slot is not.
\<close>

theorem semi_structured_columns_restored:
  assumes "get_next w False block bs s = Some ((OK, False, block'), s')"
    and "i < length (slots s)"
    and "is_materialized (slots s ! i)"
    and "semi_structured (slots s ! i)"
  shows "i < length block' \<and>
         data_type (block' ! i) = get_data_type_ptr (slots s ! i) \<and>
         data_type (block' ! i) \<notin> {DataTypeString, DataTypeNullable DataTypeString} \<and>
         (\<exists>log input input_type cast_param m.
            column (block' ! i) =
              Some (cast_result_column
                      (w log (CAST_execute input input_type (get_data_type_ptr (slots s ! i))
                                cast_param m))
                      (is_nullable (slots s ! i))))"
  using get_next_types [OF assms] semi_structured_not_staging [OF assms(4)]
  by simp

theorem semi_structured_columns_restored_witness:
  "\<exists>block' s'.
     query example_world (example_opened (OTHER_TABLE_TYPE 0) False) =
       Some (OK, example_queried) \<and>
     get_next example_world False example_block 4096 example_queried =
       Some ((OK, False, block'), s') \<and>
     data_type (block' ! 1) = DataTypeOf TYPE_HLL \<and>
     data_type (block' ! 3) = DataTypeNullable (DataTypeOf TYPE_JSONB)"
proof -
  from get_next_example obtain block' s' where
    r: "get_next example_world False example_block 4096 example_queried =
          Some ((OK, False, block'), s')"
    by blast
  have sl: "slots example_queried = example_slots"
    by (simp add: example_queried_def example_opened_def JdbcConnector_ctor_def example_param_def)
  have "data_type (block' ! 1) = DataTypeOf TYPE_HLL"
    using semi_structured_columns_restored [OF r, of 1]
    by (simp add: sl example_slots_def semi_structured_def get_data_type_ptr_def
        create_data_type_def)
  moreover have "data_type (block' ! 3) = DataTypeNullable (DataTypeOf TYPE_JSONB)"
    using semi_structured_columns_restored [OF r, of 3]
    by (simp add: sl example_slots_def semi_structured_def get_data_type_ptr_def
        create_data_type_def)
  ultimately show ?thesis using r query_example_world by blast
qed

subsection \<open>Writing a block\<close>

lemma exec_stmt_write_rows:
  "exec_stmt_write w block n0 s = Some ((OK, n), s') \<Longrightarrow> n = rows block mod 2 ^ 32"
  by (auto simp add: exec_stmt_write_def exec_defs prim_defs Let_def
        split: if_splits option.splits)

lemma exec_stmt_write_indep:
  "exec_stmt_write (foreign_write_returns k w) block n0 s = exec_stmt_write w block n0 s"
  by (simp add: exec_stmt_write_def exec_defs prim_defs Let_def foreign_write_returns_def)

lemma append_block_rows:
  assumes "append_block w block st n0 tt s = Some ((OK, n), s')"
  shows "n = rows block mod 2 ^ 32"
proof -
  from assms obtain s1 where "exec_stmt_write w block n0 s = Some ((OK, n), s1)"
    by (auto simp add: append_block_def seq_def return_def modify_def
        split: if_splits option.splits)
  then show ?thesis by (rule exec_stmt_write_rows)
qed

lemma append_block_indep:
  "append_block (foreign_write_returns k w) block st n0 tt s = append_block w block st n0 tt s"
  by (simp add: append_block_def exec_stmt_write_indep seq_def)

text \<open>
  C2. The row count that \<open>exec_stmt_write\<close> and \<open>append\<close> report is the row count of the
  block written (as the unsigned 32-bit counter holds it, so the row count itself for
  every block of fewer than \<open>2^32\<close> rows); what the foreign write call returns has no
  influence on the outcome at all.
\<close>

theorem write_reports_rows_of_block:
  "exec_stmt_write (foreign_write_returns k w) block n0 s = exec_stmt_write w block n0 s \<and>
   append_block (foreign_write_returns k w) block st n0 tt s = append_block w block st n0 tt s \<and>
   (exec_stmt_write w block n0 s = Some ((OK, n), s') \<longrightarrow>
      n = rows block mod 2 ^ 32 \<and> (rows block < 2 ^ 32 \<longrightarrow> n = rows block)) \<and>
   (append_block w block st n0 tt s = Some ((OK, n), s') \<longrightarrow>
      n = rows block mod 2 ^ 32 \<and> (rows block < 2 ^ 32 \<longrightarrow> n = rows block))"
  using exec_stmt_write_rows [of w block n0 s n s'] append_block_rows [of w block st n0 tt s n s']
  by (auto simp add: exec_stmt_write_indep append_block_indep)

lemma exec_stmt_write_example:
  "\<exists>n s'. exec_stmt_write (foreign_write_returns 50 example_world) (block_of_rows 100) 0
      (example_opened (OTHER_TABLE_TYPE 0) False) = Some ((OK, n), s')"
  by (simp add: exec_stmt_write_def exec_defs prim_defs Let_def foreign_write_returns_def
      example_world_def quiet_def example_state_defs)

lemma append_block_example:
  "\<exists>n s'. append_block (foreign_write_returns 50 example_world) (block_of_rows 100) 0 0
      (OTHER_TABLE_TYPE 0) (example_opened (OTHER_TABLE_TYPE 0) False) = Some ((OK, n), s')"
  by (simp add: append_block_def exec_stmt_write_def exec_defs prim_defs Let_def
      foreign_write_returns_def example_world_def quiet_def example_state_defs)

theorem write_reports_rows_of_block_witness:
  "\<exists>s' s''.
     exec_stmt_write (foreign_write_returns 50 example_world) (block_of_rows 100) 0
       (example_opened (OTHER_TABLE_TYPE 0) False) = Some ((OK, 100), s') \<and>
     append_block (foreign_write_returns 50 example_world) (block_of_rows 100) 0 0
       (OTHER_TABLE_TYPE 0) (example_opened (OTHER_TABLE_TYPE 0) False) = Some ((OK, 100), s'')"
proof -
  from exec_stmt_write_example obtain n s' where
    r: "exec_stmt_write (foreign_write_returns 50 example_world) (block_of_rows 100) 0
      (example_opened (OTHER_TABLE_TYPE 0) False) = Some ((OK, n), s')"
    by blast
  from append_block_example obtain m s'' where
    a: "append_block (foreign_write_returns 50 example_world) (block_of_rows 100) 0 0
      (OTHER_TABLE_TYPE 0) (example_opened (OTHER_TABLE_TYPE 0) False) = Some ((OK, m), s'')"
    by blast
  have b: "rows (block_of_rows 100) < 2 ^ 32"
    by (simp add: block_of_rows_def)
  from write_reports_rows_of_block
         [of 50 "foreign_write_returns 50 example_world" "block_of_rows 100" 0
             "example_opened (OTHER_TABLE_TYPE 0) False" 0 "OTHER_TABLE_TYPE 0" n s'] r b
  have "n = rows (block_of_rows 100)" by simp
  then have n: "n = 100" by (simp add: block_of_rows_def)
  from write_reports_rows_of_block
         [of 50 "foreign_write_returns 50 example_world" "block_of_rows 100" 0
             "example_opened (OTHER_TABLE_TYPE 0) False" 0 "OTHER_TABLE_TYPE 0" m s''] a b
  have "m = rows (block_of_rows 100)" by simp
  then have m: "m = 100" by (simp add: block_of_rows_def)
  from r a n m show ?thesis by blast
qed

end
